theory Spec2Isabelle
  imports Complex_Main "HOL-Library.Multiset" "HOL-Library.Sublist"
begin

section \<open>Data model\<close>

text \<open>
  \<^verbatim>\<open>MintConfig\<close> and \<^verbatim>\<open>Config\<close> of the configuration file. Go slices are lists (a nil
  slice and an empty slice are both the empty list: the code only ever takes their
  length), Go's \<^verbatim>\<open>int\<close> fields are only stored and compared, never computed with, so they
  are \<open>int\<close>. The nested anonymous structs of \<^verbatim>\<open>Config\<close> are flattened, the field name
  prefixed with the struct's.
\<close>

record MintConfig =
  Mint :: string
  PumpPoolList :: "string list"
  RaydiumPoolList :: "string list"
  RaydiumCPPoolList :: "string list"
  MeteoraPoolList :: "string list"
  LookupTableAccounts :: "string list"
  ProcessDelay :: int

record Config =
  Routing_MintConfigList :: "MintConfig list"
  RPC_URL :: string
  Spam_Enabled :: bool
  Spam_SendingRPCURLs :: "string list"
  Spam_ComputeUnitPrice_Strategy :: string
  Spam_ComputeUnitPrice_From :: int
  Spam_ComputeUnitPrice_To :: int
  Spam_ComputeUnitPrice_Count :: int
  Spam_MaxRetries :: int
  Spam_EnableSimpleSend :: bool
  Jito_Enabled :: bool
  Jito_BlockEngineURLs :: "string list"
  Jito_UUID :: string
  Jito_IPAddresses :: "string list"
  Jito_TipConfig_Strategy :: string
  Jito_TipConfig_From :: int
  Jito_TipConfig_To :: int
  Jito_TipConfig_Count :: int
  KaminoFlashloan_Enabled :: bool
  Bot_ComputeUnitLimit :: int
  Bot_MergeMints :: bool

text \<open>The part of \<^verbatim>\<open>FlashAgentConfig\<close> the agent reads after start-up.\<close>

record FlashAgentConfig =
  Ave_Token :: string
  Wechat_VerifyToken :: string

text \<open>
  Errors are values. The messages of the source are Chinese text; each is a constructor
  here, with the place it is raised.
\<close>

datatype error =
    ExecutableNotFound   \<comment> \<open>\<^verbatim>\<open>ProcessManager.Start\<close>: os.Stat says the executable does not exist\<close>
  | SpawnFailed          \<comment> \<open>\<^verbatim>\<open>cmd.Start()\<close> failed\<close>
  | KillFailed           \<comment> \<open>SIGTERM could not be delivered and \<^verbatim>\<open>Process.Kill()\<close> failed too\<close>
  | MarshalFailed        \<comment> \<open>\<^verbatim>\<open>toml.Marshal\<close> failed\<close>
  | WriteFailed          \<comment> \<open>\<^verbatim>\<open>os.WriteFile\<close> failed\<close>
  | LoadFailed           \<comment> \<open>a configuration file could not be read or parsed\<close>
  | UnmarshalFailed      \<comment> \<open>\<^verbatim>\<open>json.Unmarshal\<close> of a command's value failed\<close>
  | UpdateSectionFailed  \<comment> \<open>\<^verbatim>\<open>Config.UpdateSection\<close> failed\<close>
  | RequestFailed        \<comment> \<open>the HTTP request could not be built or sent, or its body not read\<close>
  | BadStatusCode int    \<comment> \<open>the HTTP status code was not 200\<close>
  | InvalidAPIResponse   \<comment> \<open>\<^verbatim>\<open>apiResp.Status != 1\<close> or no candidate\<close>

text \<open>The notifications \<^verbatim>\<open>BroadcastMessage\<close> is called with.\<close>

datatype message =
    MsgManuallyStopped        \<comment> \<open>StopMEVBot\<close>
  | MsgManuallyStarted        \<comment> \<open>StartMEVBot\<close>
  | MsgRestarted              \<comment> \<open>RestartMEVBot\<close>
  | MsgConfigUpdated          \<comment> \<open>UpdateConfig\<close>
  | MsgAutoRestarted          \<comment> \<open>monitorStatus, restart succeeded\<close>
  | MsgAutoRestartFailed error  \<comment> \<open>monitorStatus, restart failed\<close>
  | MsgStatusRunning
  | MsgStatusStoppedManual
  | MsgStatusStoppedUnexpected

text \<open>
  What the operating system and the network answer during one operation. The code
  cannot influence these; every operation takes them as an argument.
\<close>

record os_env =
  exe_exists :: bool        \<comment> \<open>os.Stat finds the executable\<close>
  spawn_ok :: bool          \<comment> \<open>\<^verbatim>\<open>cmd.Start()\<close> succeeds\<close>
  sigterm_ok :: bool        \<comment> \<open>\<^verbatim>\<open>Process.Signal(SIGTERM)\<close> succeeds\<close>
  kill_ok :: bool           \<comment> \<open>\<^verbatim>\<open>Process.Kill()\<close> succeeds\<close>
  exits_after_stop :: bool  \<comment> \<open>the exit observer of \<^verbatim>\<open>ProcessManager.Start\<close> runs between
                                a \<^verbatim>\<open>proc.Stop()\<close> and the \<^verbatim>\<open>proc.Start()\<close> that follows it\<close>
  marshal_ok :: bool        \<comment> \<open>\<^verbatim>\<open>toml.Marshal\<close> succeeds\<close>
  write_ok :: bool          \<comment> \<open>the file system accepts the write (to a path that can name a file)\<close>
  upgrade_ok :: bool        \<comment> \<open>\<^verbatim>\<open>upgrader.Upgrade\<close> succeeds\<close>

text \<open>
  The observable actions of the agent, in the order they happen. \<open>ProcStop\<close> and
  \<open>ProcStart\<close> are the calls of \<^verbatim>\<open>a.proc.Stop()\<close> and \<^verbatim>\<open>a.proc.Start()\<close>; \<open>Spawn\<close>,
  \<open>SigTerm\<close> and \<open>Kill\<close> are what these calls do to the operating-system process.
  \<open>Lock\<close>/\<open>Unlock\<close> and \<open>RLock\<close>/\<open>RUnlock\<close> are those of \<^verbatim>\<open>a.mu\<close>.
\<close>

datatype effect =
    Lock | Unlock | RLock | RUnlock
  | SetManuallyStopped bool
  | ProcStop | ProcStart
  | Spawn | SigTerm | Kill
  | CancelCtx
  | WsStart | WsStop
  | WroteFile string
  | SetMevConfig nat
  | Broadcast message
  | HttpError int
  | Upgraded nat
  | Registered nat
  | Welcome nat

section \<open>The state\<close>

record ProcessManager =
  pm_isRunning :: bool
  pm_hasProcess :: bool   \<comment> \<open>\<^verbatim>\<open>p.cmd != nil && p.cmd.Process != nil\<close>\<close>

text \<open>
  \<^verbatim>\<open>Agent\<close>. \<open>mevConfig\<close> is a pointer: an address of the configuration store below.
  \<open>statusChecks\<close> is the number of values waiting in the channel of that name, whose
  capacity \<^verbatim>\<open>NewAgent\<close> fixes at 1. \<open>ctx_done\<close> says \<^verbatim>\<open>cancelFunc\<close> has been called.
\<close>

record Agent =
  mevConfigPath :: string
  mevConfig :: nat
  agentConfig :: "FlashAgentConfig option"
  isRunning :: bool
  manuallyStopped :: bool
  ctx_done :: bool
  statusChecks :: nat

definition statusChecks_cap :: nat where
  "statusChecks_cap = 1"

text \<open>The file a successful \<^verbatim>\<open>SaveToFile\<close> leaves: the TOML document of a configuration.\<close>

datatype document = TomlDocument Config

text \<open>
  The enrichment pipeline's records. \<^verbatim>\<open>Volume15m\<close> is a \<^verbatim>\<open>float64\<close> decoded from JSON,
  so a finite number; the code only compares volumes, and finite floats compare as the
  reals they denote. The fields of \<^verbatim>\<open>HotToken\<close> carry the prefix \<open>hot_\<close>, since two of
  them have the names of fields of \<^verbatim>\<open>TokenPoolsInfo\<close>.
\<close>

record HotToken =
  hot_Pair :: string
  hot_Chain :: string
  hot_Amm :: string
  hot_TargetToken :: string
  hot_TokenSymbol :: string
  hot_Volume15m :: real
  hot_VolumeUSD24h :: real

record APIResponse =
  Status :: int
  Data_Total :: int
  Data_PageNO :: int
  Data_PageSize :: int
  Data_Data :: "HotToken list"

record TokenPoolsInfo =
  TokenAddress :: string
  TokenSymbol :: string
  Volume15m :: real
  PumpPools :: "string list"
  MeteoraLists :: "string list"
  RaydiumPools :: "string list"
  RaydiumCPPools :: "string list"

record HotTokensTracker =
  HotTokens :: "HotToken list"
  TokenPoolsInfos :: "TokenPoolsInfo list"
  MevConfig :: nat   \<comment> \<open>a pointer, as \<open>mevConfig\<close> of the agent\<close>

text \<open>
  The whole system: the agent, its process manager, the configuration store (every
  \<^verbatim>\<open>*Config\<close> is an address below \<open>next_addr\<close>), the files, the set of registered
  control-socket clients (connection ids, the next one to be handed out being
  \<open>next_conn\<close>), the tracker \<^verbatim>\<open>Agent.Start\<close> created last, the log of effects, and where
  the health-check goroutine stands: \<open>monitor_pending\<close> holds between the \<^verbatim>\<open>RUnlock\<close>
  and the \<^verbatim>\<open>Lock\<close> of a tick that has decided to restart the worker.
\<close>

record world =
  agent :: Agent
  proc :: ProcessManager
  heap :: "nat \<Rightarrow> Config"
  next_addr :: nat
  files :: "string \<Rightarrow> document option"
  clients :: "nat set"
  next_conn :: nat
  tracker :: HotTokensTracker
  trace :: "effect list"
  monitor_started :: bool
  monitor_pending :: bool

definition emit :: "effect \<Rightarrow> world \<Rightarrow> world" where
  "emit e w = w\<lparr>trace := trace w @ [e]\<rparr>"

definition set_manuallyStopped :: "bool \<Rightarrow> world \<Rightarrow> world" where
  "set_manuallyStopped b w =
     emit (SetManuallyStopped b) (w\<lparr>agent := (agent w)\<lparr>manuallyStopped := b\<rparr>\<rparr>)"

definition BroadcastMessage :: "message \<Rightarrow> world \<Rightarrow> world" where
  "BroadcastMessage m w = emit (Broadcast m) w"

section \<open>ProcessManager\<close>

text \<open>
  \<^verbatim>\<open>Start\<close>: nothing to do when running; an error when the executable is missing; a new
  \<^verbatim>\<open>exec.Cmd\<close> otherwise, whose \<^verbatim>\<open>Process\<close> is set only when \<^verbatim>\<open>cmd.Start()\<close>
  succeeds. The third component is what happened to the operating system.
\<close>

definition ProcessManager_Start ::
  "os_env \<Rightarrow> ProcessManager \<Rightarrow> error option \<times> ProcessManager \<times> effect list" where
  "ProcessManager_Start env p =
     (if pm_isRunning p then (None, p, [])
      else if \<not> exe_exists env then (Some ExecutableNotFound, p, [])
      else if \<not> spawn_ok env then (Some SpawnFailed, p\<lparr>pm_hasProcess := False\<rparr>, [])
      else (None, p\<lparr>pm_isRunning := True, pm_hasProcess := True\<rparr>, [Spawn]))"

text \<open>
  \<^verbatim>\<open>Stop\<close> signals and returns: \<^verbatim>\<open>isRunning\<close> is left to the exit observer.
\<close>

definition ProcessManager_Stop ::
  "os_env \<Rightarrow> ProcessManager \<Rightarrow> error option \<times> ProcessManager \<times> effect list" where
  "ProcessManager_Stop env p =
     (if \<not> pm_isRunning p \<or> \<not> pm_hasProcess p then (None, p, [])
      else if sigterm_ok env then (None, p, [SigTerm])
      else if kill_ok env then (None, p, [Kill])
      else (Some KillFailed, p, []))"

definition ProcessManager_IsRunning :: "ProcessManager \<Rightarrow> bool" where
  "ProcessManager_IsRunning p = pm_isRunning p"

text \<open>The goroutine of \<^verbatim>\<open>Start\<close> that waits for the process: the process has exited.\<close>

definition ProcessManager_exited :: "ProcessManager \<Rightarrow> ProcessManager" where
  "ProcessManager_exited p = p\<lparr>pm_isRunning := False\<rparr>"

text \<open>The calls \<^verbatim>\<open>a.proc.Start()\<close> and \<^verbatim>\<open>a.proc.Stop()\<close>, logged.\<close>

definition proc_Start :: "os_env \<Rightarrow> world \<Rightarrow> error option \<times> world" where
  "proc_Start env w =
     (case ProcessManager_Start env (proc w) of
        (err, p, es) \<Rightarrow> (err, w\<lparr>proc := p, trace := trace w @ ProcStart # es\<rparr>))"

definition proc_Stop :: "os_env \<Rightarrow> world \<Rightarrow> error option \<times> world" where
  "proc_Stop env w =
     (case ProcessManager_Stop env (proc w) of
        (err, p, es) \<Rightarrow> (err, w\<lparr>proc := p, trace := trace w @ ProcStop # es\<rparr>))"

definition proc_exited :: "world \<Rightarrow> world" where
  "proc_exited w = w\<lparr>proc := ProcessManager_exited (proc w)\<rparr>"

definition exit_between :: "os_env \<Rightarrow> world \<Rightarrow> world" where
  "exit_between env w = (if exits_after_stop env then proc_exited w else w)"

section \<open>Persisting a configuration\<close>

text \<open>
  \<^verbatim>\<open>os.WriteFile\<close>, all or nothing: the file holds the new document, or the call fails
  and the files are as before. The empty path names no file, so writing to it fails
  whatever the file system.
\<close>

definition os_WriteFile ::
  "os_env \<Rightarrow> string \<Rightarrow> document \<Rightarrow> (string \<Rightarrow> document option)
     \<Rightarrow> error option \<times> (string \<Rightarrow> document option)" where
  "os_WriteFile env name data fs =
     (if name = [] \<or> \<not> write_ok env then (Some WriteFailed, fs)
      else (None, fs(name \<mapsto> data)))"

definition SaveToFile ::
  "os_env \<Rightarrow> Config \<Rightarrow> string \<Rightarrow> (string \<Rightarrow> document option)
     \<Rightarrow> error option \<times> (string \<Rightarrow> document option)" where
  "SaveToFile env c configPath fs =
     (if \<not> marshal_ok env then (Some MarshalFailed, fs)
      else os_WriteFile env configPath (TomlDocument c) fs)"

section \<open>Agent\<close>

text \<open>
  \<^verbatim>\<open>NewAgent(mevConfigPath, agentConfigPath)\<close>. Its arguments here are what loading the
  two files gave and the files themselves. The struct literal sets \<^verbatim>\<open>mevConfig\<close>,
  \<^verbatim>\<open>agentConfig\<close>, \<^verbatim>\<open>isRunning\<close>, the context and the channel; \<^verbatim>\<open>mevConfigPath\<close> and
  \<^verbatim>\<open>manuallyStopped\<close> keep Go's zero values, the empty string and false. A failed load
  of the agent's own configuration is logged and leaves \<^verbatim>\<open>agentConfig\<close> nil.
\<close>

definition NewAgent ::
  "string \<Rightarrow> error + Config \<Rightarrow> error + FlashAgentConfig \<Rightarrow> (string \<Rightarrow> document option)
     \<Rightarrow> error + world" where
  "NewAgent path loaded_mev loaded_agent fs =
     (case loaded_mev of
        Inl e \<Rightarrow> Inl e
      | Inr c \<Rightarrow>
          Inr \<lparr>agent = \<lparr>mevConfigPath = [], mevConfig = 0,
                         agentConfig = (case loaded_agent of Inl _ \<Rightarrow> None | Inr a \<Rightarrow> Some a),
                         isRunning = False, manuallyStopped = False, ctx_done = False,
                         statusChecks = 0\<rparr>,
               proc = \<lparr>pm_isRunning = False, pm_hasProcess = False\<rparr>,
               heap = (\<lambda>_. c), next_addr = 1, files = fs, clients = {}, next_conn = 0,
               tracker = \<lparr>HotTokens = [], TokenPoolsInfos = [], MevConfig = 0\<rparr>, trace = [],
               monitor_started = False, monitor_pending = False\<rparr>)"

text \<open>
  Every operation below takes \<^verbatim>\<open>a.mu.Lock()\<close> first and releases it by
  \<^verbatim>\<open>defer a.mu.Unlock()\<close>, that is on every return.
\<close>

definition Agent_Start :: "os_env \<Rightarrow> world \<Rightarrow> error option \<times> world" where
  "Agent_Start env w0 =
     (let w1 = emit Lock w0 in
      if isRunning (agent w1) then (None, emit Unlock w1)
      else
        let w2 = emit WsStart w1;
            (err, w3) = proc_Start env w2
        in case err of
             Some e \<Rightarrow> (Some e, emit Unlock (emit WsStop w3))
           | None \<Rightarrow>
               (None, emit Unlock
                  (w3\<lparr>agent := (agent w3)\<lparr>isRunning := True\<rparr>,
                      tracker := \<lparr>HotTokens = [], TokenPoolsInfos = [],
                                   MevConfig = mevConfig (agent w3)\<rparr>,
                      monitor_started := True\<rparr>)))"

definition Agent_Stop :: "os_env \<Rightarrow> world \<Rightarrow> error option \<times> world" where
  "Agent_Stop env w0 =
     (let w1 = emit Lock w0 in
      if \<not> isRunning (agent w1) then (None, emit Unlock w1)
      else
        let w2 = set_manuallyStopped True w1;
            w3 = emit CancelCtx (w2\<lparr>agent := (agent w2)\<lparr>ctx_done := True\<rparr>\<rparr>);
            (err, w4) = proc_Stop env w3;
            w5 = emit WsStop w4
        in (None, emit Unlock (w5\<lparr>agent := (agent w5)\<lparr>isRunning := False\<rparr>\<rparr>)))"

definition StopMEVBot :: "os_env \<Rightarrow> world \<Rightarrow> error option \<times> world" where
  "StopMEVBot env w0 =
     (let w1 = emit Lock w0;
          w2 = set_manuallyStopped True w1;
          (err, w3) = proc_Stop env w2
      in case err of
           Some e \<Rightarrow> (Some e, emit Unlock w3)
         | None \<Rightarrow> (None, emit Unlock (BroadcastMessage MsgManuallyStopped w3)))"

definition StartMEVBot :: "os_env \<Rightarrow> world \<Rightarrow> error option \<times> world" where
  "StartMEVBot env w0 =
     (let w1 = emit Lock w0;
          w2 = set_manuallyStopped False w1;
          (err, w3) = proc_Start env w2
      in case err of
           Some e \<Rightarrow> (Some e, emit Unlock w3)
         | None \<Rightarrow> (None, emit Unlock (BroadcastMessage MsgManuallyStarted w3)))"

definition RestartMEVBot :: "os_env \<Rightarrow> world \<Rightarrow> error option \<times> world" where
  "RestartMEVBot env w0 =
     (let w1 = emit Lock w0;
          (err, w2) = proc_Stop env w1
      in case err of
           Some e \<Rightarrow> (Some e, emit Unlock w2)
         | None \<Rightarrow>
             let w3 = set_manuallyStopped True w2;
                 (err', w4) = proc_Start env (exit_between env w3)
             in (case err' of
                   Some e \<Rightarrow> (Some e, emit Unlock w4)
                 | None \<Rightarrow>
                     (None, emit Unlock
                        (BroadcastMessage MsgRestarted (set_manuallyStopped False w4)))))"

text \<open>
  \<^verbatim>\<open>UpdateConfig(updatedConfig)\<close>: persist, adopt the pointer, stop (an error is only
  logged), start.
\<close>

definition UpdateConfig :: "os_env \<Rightarrow> nat \<Rightarrow> world \<Rightarrow> error option \<times> world" where
  "UpdateConfig env updatedConfig w0 =
     (let w1 = emit Lock w0 in
      case SaveToFile env (heap w1 updatedConfig) (mevConfigPath (agent w1)) (files w1) of
        (Some e, fs) \<Rightarrow> (Some e, emit Unlock (w1\<lparr>files := fs\<rparr>))
      | (None, fs) \<Rightarrow>
          let w2 = emit (WroteFile (mevConfigPath (agent w1))) (w1\<lparr>files := fs\<rparr>);
              w3 = emit (SetMevConfig updatedConfig)
                     (w2\<lparr>agent := (agent w2)\<lparr>mevConfig := updatedConfig\<rparr>\<rparr>);
              (err, w4) = proc_Stop env w3;
              (err', w5) = proc_Start env (exit_between env w4)
          in (case err' of
                Some e \<Rightarrow> (Some e, emit Unlock w5)
              | None \<Rightarrow> (None, emit Unlock (BroadcastMessage MsgConfigUpdated w5))))"

section \<open>Libraries\<close>

text \<open>
  What the code calls and this repository does not define: the JSON decoders of a
  command's value (one per target type; for \<^verbatim>\<open>interface{}\<close> the decoded value is kept as
  text), \<^verbatim>\<open>json.Marshal\<close> followed by \<^verbatim>\<open>json.Unmarshal\<close> into a fresh \<^verbatim>\<open>Config\<close>, the TOML
  tree update of \<^verbatim>\<open>UpdateSection\<close>, \<^verbatim>\<open>sort.Slice\<close> at its two call sites (with the
  comparison the call site passes), and the pools the network reports for a token.
  They are arguments of the model; a theorem says what it needs of them.
\<close>

record libs =
  json_Unmarshal_Config :: "string \<Rightarrow> Config option"
  json_Unmarshal_MintConfig :: "string \<Rightarrow> MintConfig option"
  json_Unmarshal_string :: "string \<Rightarrow> string option"
  json_Unmarshal_value :: "string \<Rightarrow> string option"
  json_Unmarshal_rpc :: "string \<Rightarrow> string option"
  json_Unmarshal_feature :: "string \<Rightarrow> (string \<times> bool) option"
  json_Unmarshal_APIResponse :: "string \<Rightarrow> APIResponse option"
  json_roundtrip :: "Config \<Rightarrow> Config"
  toml_set :: "string \<Rightarrow> string \<Rightarrow> Config \<Rightarrow> error option \<times> Config"
  sort_tokens :: "HotToken list \<Rightarrow> HotToken list"
  sort_infos :: "TokenPoolsInfo list \<Rightarrow> TokenPoolsInfo list"
  fetch_pools :: "TokenPoolsInfo \<Rightarrow> TokenPoolsInfo"


definition sort_Slice_infos :: "libs \<Rightarrow> TokenPoolsInfo list \<Rightarrow> bool" where
  "sort_Slice_infos lib xs =
     (mset (sort_infos lib xs) = mset xs
      \<and> sorted_wrt (\<lambda>a b. \<not> Volume15m b > Volume15m a) (sort_infos lib xs))"

section \<open>Config\<close>

text \<open>
  \<^verbatim>\<open>Copy\<close>: the configuration at \<open>c\<close> goes through JSON into a fresh \<^verbatim>\<open>Config\<close>, whose
  address is returned. Nothing of the original is shared: the copy is built from bytes.
  \<open>alloc_Config\<close> is Go's allocation of a \<^verbatim>\<open>Config\<close> variable whose address is taken.
\<close>

definition alloc_Config :: "Config \<Rightarrow> world \<Rightarrow> nat \<times> world" where
  "alloc_Config c w =
     (next_addr w, w\<lparr>heap := (heap w)(next_addr w := c), next_addr := Suc (next_addr w)\<rparr>)"

definition Copy :: "libs \<Rightarrow> nat \<Rightarrow> world \<Rightarrow> nat \<times> world" where
  "Copy lib c w = alloc_Config (json_roundtrip lib (heap w c)) w"

text \<open>
  \<^verbatim>\<open>UpdateSection(section, key, value)\<close> on the configuration at \<open>c\<close>: the path is the
  section, or section and key joined by a dot; the TOML library sets it and decodes the
  result back into the same \<^verbatim>\<open>Config\<close>.
\<close>

definition UpdateSection ::
  "libs \<Rightarrow> string \<Rightarrow> string \<Rightarrow> string \<Rightarrow> nat \<Rightarrow> world \<Rightarrow> error option \<times> world" where
  "UpdateSection lib section key val c w =
     (let sectionPath = (if key \<noteq> [] then section @ ''.'' @ key else section) in
      case toml_set lib sectionPath val (heap w c) of
        (err, c') \<Rightarrow> (err, w\<lparr>heap := (heap w)(c := c')\<rparr>))"

section \<open>WebSocketServer\<close>

record Command =
  cmd_Type :: string
  cmd_Action :: string
  cmd_Section :: string
  cmd_Key :: string
  cmd_Value :: string

text \<open>How \<^verbatim>\<open>handleConnections\<close> ends for one request.\<close>

datatype handshake =
    Unauthorized     \<comment> \<open>\<^verbatim>\<open>http.Error(w, "Unauthorized", 401)\<close>\<close>
  | UpgradeFailed    \<comment> \<open>\<^verbatim>\<open>upgrader.Upgrade\<close> returned an error\<close>
  | Connected nat    \<comment> \<open>the connection is registered and served\<close>
  | Panicked         \<comment> \<open>\<^verbatim>\<open>ws.agent.agentConfig\<close> is nil\<close>

definition handleConnections :: "os_env \<Rightarrow> string \<Rightarrow> world \<Rightarrow> handshake \<times> world" where
  "handleConnections env token w =
     (case agentConfig (agent w) of
        None \<Rightarrow> (Panicked, w)
      | Some ac \<Rightarrow>
          let expectedToken = Wechat_VerifyToken ac in
          if expectedToken \<noteq> [] \<and> token \<noteq> expectedToken
          then (Unauthorized, emit (HttpError 401) w)
          else if \<not> upgrade_ok env then (UpgradeFailed, w)
          else
            let conn = next_conn w;
                w1 = emit (Upgraded conn) (w\<lparr>next_conn := Suc conn\<rparr>);
                w2 = emit (Registered conn) (w1\<lparr>clients := insert conn (clients w1)\<rparr>);
                w3 = emit (Welcome conn) w2
            in (Connected conn, w3))"

text \<open>The handlers of the configuration commands.\<close>

definition handleConfigUpdate ::
  "libs \<Rightarrow> os_env \<Rightarrow> Command \<Rightarrow> world \<Rightarrow> error option \<times> world" where
  "handleConfigUpdate lib env cmd w =
     (case json_Unmarshal_Config lib (cmd_Value cmd) of
        None \<Rightarrow> (Some UnmarshalFailed, w)
      | Some c \<Rightarrow>
          let (updatedConfig, w1) = alloc_Config c w in UpdateConfig env updatedConfig w1)"

definition handleSectionUpdate ::
  "libs \<Rightarrow> os_env \<Rightarrow> Command \<Rightarrow> world \<Rightarrow> error option \<times> world" where
  "handleSectionUpdate lib env cmd w =
     (let (updatedConfig, w1) = Copy lib (mevConfig (agent w)) w in
      case json_Unmarshal_value lib (cmd_Value cmd) of
        None \<Rightarrow> (Some UnmarshalFailed, w1)
      | Some v \<Rightarrow>
          (case UpdateSection lib (cmd_Section cmd) (cmd_Key cmd) v updatedConfig w1 of
             (Some e, w2) \<Rightarrow> (Some e, w2)
           | (None, w2) \<Rightarrow> UpdateConfig env updatedConfig w2))"

definition handleAddMint ::
  "libs \<Rightarrow> os_env \<Rightarrow> Command \<Rightarrow> world \<Rightarrow> error option \<times> world" where
  "handleAddMint lib env cmd w =
     (case json_Unmarshal_MintConfig lib (cmd_Value cmd) of
        None \<Rightarrow> (Some UnmarshalFailed, w)
      | Some mintConfig \<Rightarrow>
          let (updatedConfig, w1) = Copy lib (mevConfig (agent w)) w;
              c = heap w1 updatedConfig;
              w2 = w1\<lparr>heap := (heap w1)(updatedConfig :=
                     c\<lparr>Routing_MintConfigList := Routing_MintConfigList c @ [mintConfig]\<rparr>)\<rparr>
          in UpdateConfig env updatedConfig w2)"

definition handleRemoveMint ::
  "libs \<Rightarrow> os_env \<Rightarrow> Command \<Rightarrow> world \<Rightarrow> error option \<times> world" where
  "handleRemoveMint lib env cmd w =
     (case json_Unmarshal_string lib (cmd_Value cmd) of
        None \<Rightarrow> (Some UnmarshalFailed, w)
      | Some mintAddress \<Rightarrow>
          let (updatedConfig, w1) = Copy lib (mevConfig (agent w)) w;
              c = heap w1 updatedConfig;
              newMintList = filter (\<lambda>mint. Mint mint \<noteq> mintAddress) (Routing_MintConfigList c);
              w2 = w1\<lparr>heap := (heap w1)(updatedConfig :=
                     c\<lparr>Routing_MintConfigList := newMintList\<rparr>)\<rparr>
          in UpdateConfig env updatedConfig w2)"

definition handleUpdateRPC ::
  "libs \<Rightarrow> os_env \<Rightarrow> Command \<Rightarrow> world \<Rightarrow> error option \<times> world" where
  "handleUpdateRPC lib env cmd w =
     (case json_Unmarshal_rpc lib (cmd_Value cmd) of
        None \<Rightarrow> (Some UnmarshalFailed, w)
      | Some url \<Rightarrow>
          let (updatedConfig, w1) = Copy lib (mevConfig (agent w)) w;
              c = heap w1 updatedConfig;
              w2 = w1\<lparr>heap := (heap w1)(updatedConfig := c\<lparr>RPC_URL := url\<rparr>)\<rparr>
          in UpdateConfig env updatedConfig w2)"

definition toggle :: "string \<Rightarrow> bool \<Rightarrow> Config \<Rightarrow> Config" where
  "toggle feature enabled c =
     (if feature = ''spam'' then c\<lparr>Spam_Enabled := enabled\<rparr>
      else if feature = ''jito'' then c\<lparr>Jito_Enabled := enabled\<rparr>
      else if feature = ''kamino_flashloan'' then c\<lparr>KaminoFlashloan_Enabled := enabled\<rparr>
      else if feature = ''merge_mints'' then c\<lparr>Bot_MergeMints := enabled\<rparr>
      else c)"

definition handleToggleFeature ::
  "libs \<Rightarrow> os_env \<Rightarrow> Command \<Rightarrow> world \<Rightarrow> error option \<times> world" where
  "handleToggleFeature lib env cmd w =
     (case json_Unmarshal_feature lib (cmd_Value cmd) of
        None \<Rightarrow> (Some UnmarshalFailed, w)
      | Some (feature, enabled) \<Rightarrow>
          let (updatedConfig, w1) = Copy lib (mevConfig (agent w)) w;
              w2 = w1\<lparr>heap := (heap w1)(updatedConfig :=
                     toggle feature enabled (heap w1 updatedConfig))\<rparr>
          in UpdateConfig env updatedConfig w2)"


text \<open>
  A send on \<^verbatim>\<open>a.statusChecks\<close>, a channel with a buffer of \<open>statusChecks_cap\<close> values:
  \<^verbatim>\<open>ch <- v\<close> puts the value in the buffer when there is room and otherwise blocks the
  sender, which is the result \<open>None\<close>.
\<close>

definition statusChecks_send :: "world \<Rightarrow> world option" where
  "statusChecks_send w =
     (if statusChecks (agent w) < statusChecks_cap
      then Some (w\<lparr>agent := (agent w)\<lparr>statusChecks := Suc (statusChecks (agent w))\<rparr>\<rparr>)
      else None)"

text \<open>
  The response of \<^verbatim>\<open>handleCommand\<close>: the action echoed, and the one field set beside it.
\<close>

datatype reply =
    ConfigUpdated | SectionUpdated | MintAdded | MintRemoved
  | StatusCheckTriggered | BotRestarted | RPCUpdated | FeatureUpdated

datatype response_field =
    NoField
  | DataField nat          \<comment> \<open>\<^verbatim>\<open>response["data"] = ws.agent.mevConfig\<close>\<close>
  | MessageField reply
  | ErrorField error
  | UnknownCommandType

definition respond :: "error option \<Rightarrow> reply \<Rightarrow> response_field" where
  "respond err r = (case err of Some e \<Rightarrow> ErrorField e | None \<Rightarrow> MessageField r)"

text \<open>
  \<^verbatim>\<open>handleCommand\<close>. The result is the response written to the connection and the new
  state, or \<open>None\<close> when the goroutine is blocked in the channel send and writes none.
\<close>

definition handleCommand ::
  "libs \<Rightarrow> os_env \<Rightarrow> Command \<Rightarrow> world \<Rightarrow> ((string \<times> response_field) \<times> world) option" where
  "handleCommand lib env cmd w =
     (let action = cmd_Action cmd;
          done = (\<lambda>r (err, w'). Some ((action, respond err r), w'))
      in
      if cmd_Type cmd = ''config'' then
        (if action = ''get'' then Some ((action, DataField (mevConfig (agent w))), w)
         else if action = ''update'' then done ConfigUpdated (handleConfigUpdate lib env cmd w)
         else if action = ''updateSection''
           then done SectionUpdated (handleSectionUpdate lib env cmd w)
         else if action = ''addMint'' then done MintAdded (handleAddMint lib env cmd w)
         else if action = ''removeMint'' then done MintRemoved (handleRemoveMint lib env cmd w)
         else Some ((action, NoField), w))
      else if cmd_Type cmd = ''bot'' then
        (if action = ''status'' then
           (case statusChecks_send w of
              None \<Rightarrow> None
            | Some w' \<Rightarrow> Some ((action, MessageField StatusCheckTriggered), w'))
         else if action = ''restart'' then done BotRestarted (RestartMEVBot env w)
         else if action = ''updateRPC'' then done RPCUpdated (handleUpdateRPC lib env cmd w)
         else if action = ''toggleFeature''
           then done FeatureUpdated (handleToggleFeature lib env cmd w)
         else Some ((action, NoField), w))
      else Some ((action, UnknownCommandType), w))"

section \<open>HotTokensTracker\<close>

text \<open>What the HTTP request of \<^verbatim>\<open>FetchHotTokens\<close> gave: no response, or a status code with
  the body (if it could be read).\<close>

datatype http_result = NoResponse | Response int "string option"

text \<open>
  The ranking step of \<^verbatim>\<open>FetchHotTokens\<close>: the decoded response is validated, its
  candidates are sorted by \<^verbatim>\<open>sort.Slice\<close> with "larger \<^verbatim>\<open>Volume15m\<close> first" and cut to 10.
\<close>

definition rank_hot_tokens :: "libs \<Rightarrow> APIResponse \<Rightarrow> error + HotToken list" where
  "rank_hot_tokens lib apiResp =
     (if Status apiResp \<noteq> 1 \<or> length (Data_Data apiResp) = 0 then Inl InvalidAPIResponse
      else
        let tokens = sort_tokens lib (Data_Data apiResp)
        in Inr (if length tokens > 10 then take 10 tokens else tokens))"

definition fetch_ranking :: "libs \<Rightarrow> http_result \<Rightarrow> error + HotToken list" where
  "fetch_ranking lib resp =
     (case resp of
        NoResponse \<Rightarrow> Inl RequestFailed
      | Response code body \<Rightarrow>
          if code \<noteq> 200 then Inl (BadStatusCode code)
          else (case body of
                  None \<Rightarrow> Inl RequestFailed
                | Some b \<Rightarrow>
                    (case json_Unmarshal_APIResponse lib b of
                       None \<Rightarrow> Inl UnmarshalFailed
                     | Some apiResp \<Rightarrow> rank_hot_tokens lib apiResp)))"

definition new_info :: "HotToken \<Rightarrow> TokenPoolsInfo" where
  "new_info token =
     \<lparr>TokenAddress = hot_TargetToken token, TokenSymbol = hot_TokenSymbol token,
      Volume15m = hot_Volume15m token, PumpPools = [], MeteoraLists = [],
      RaydiumPools = [], RaydiumCPPools = []\<rparr>"

text \<open>The filter of \<^verbatim>\<open>UpdateConfig\<close>.\<close>

fun strings_Contains :: "string \<Rightarrow> string \<Rightarrow> bool" where
  "strings_Contains [] substr = (substr = [])"
| "strings_Contains (c # cs) substr = (prefix substr (c # cs) \<or> strings_Contains cs substr)"

definition poolTypeCount :: "TokenPoolsInfo \<Rightarrow> nat" where
  "poolTypeCount info =
     (if length (PumpPools info) > 0 then 1 else 0)
     + (if length (MeteoraLists info) > 0 then 1 else 0)
     + (if length (RaydiumPools info) > 0 then 1 else 0)
     + (if length (RaydiumCPPools info) > 0 then 1 else 0)"

definition keeps :: "TokenPoolsInfo \<Rightarrow> bool" where
  "keeps info = (strings_Contains (TokenAddress info) ''pump'' \<and> poolTypeCount info \<ge> 2)"

definition validTokenInfos :: "libs \<Rightarrow> TokenPoolsInfo list \<Rightarrow> TokenPoolsInfo list" where
  "validTokenInfos lib infos =
     (let valid = filter keeps (sort_infos lib infos)
      in if length valid > 2 then take 2 valid else valid)"

text \<open>The merge of \<^verbatim>\<open>UpdateConfig\<close>: the route of one surviving candidate.\<close>

fun existingConfig :: "MintConfig list \<Rightarrow> string \<Rightarrow> MintConfig option" where
  "existingConfig [] addr = None"
| "existingConfig (m # ms) addr = (if Mint m = addr then Some m else existingConfig ms addr)"

definition fresh_MintConfig :: "string \<Rightarrow> MintConfig" where
  "fresh_MintConfig addr =
     \<lparr>Mint = addr, PumpPoolList = [], RaydiumPoolList = [], RaydiumCPPoolList = [],
      MeteoraPoolList = [], LookupTableAccounts = [], ProcessDelay = 1000\<rparr>"

definition mintConfig_of :: "MintConfig list \<Rightarrow> TokenPoolsInfo \<Rightarrow> MintConfig" where
  "mintConfig_of snapshot info =
     (let m0 = (case existingConfig snapshot (TokenAddress info) of
                  Some e \<Rightarrow> e
                | None \<Rightarrow> fresh_MintConfig (TokenAddress info));
          m1 = (if length (PumpPools info) > 0 then m0\<lparr>PumpPoolList := PumpPools info\<rparr> else m0);
          m2 = (if length (MeteoraLists info) > 0
                then m1\<lparr>MeteoraPoolList := MeteoraLists info\<rparr> else m1);
          m3 = (if length (RaydiumPools info) > 0
                then m2\<lparr>RaydiumPoolList := RaydiumPools info\<rparr> else m2)
      in if length (RaydiumCPPools info) > 0
         then m3\<lparr>RaydiumCPPoolList := RaydiumCPPools info\<rparr> else m3)"

definition newMintConfigs :: "MintConfig list \<Rightarrow> TokenPoolsInfo list \<Rightarrow> MintConfig list" where
  "newMintConfigs snapshot valid = map (mintConfig_of snapshot) valid"

text \<open>
  \<^verbatim>\<open>HotTokensTracker.UpdateConfig\<close>: sort the accumulators in place, filter, cut to two,
  merge into a copy of the configuration, save it to \<^verbatim>\<open>config.toml\<close> and overwrite the
  configuration the tracker points to. Nothing changes when there is no accumulator, no
  survivor, or the save fails (the sort and the copy apart).
\<close>

definition Tracker_UpdateConfig :: "libs \<Rightarrow> os_env \<Rightarrow> world \<Rightarrow> world" where
  "Tracker_UpdateConfig lib env w0 =
     (if length (TokenPoolsInfos (tracker w0)) = 0 then w0
      else
        let sorted = sort_infos lib (TokenPoolsInfos (tracker w0));
            w1 = w0\<lparr>tracker := (tracker w0)\<lparr>TokenPoolsInfos := sorted\<rparr>\<rparr>;
            valid = filter keeps sorted
        in if length valid = 0 then w1
           else
             let valid2 = (if length valid > 2 then take 2 valid else valid);
                 (newMevConfig, w2) = Copy lib (MevConfig (tracker w1)) w1;
                 c = heap w2 newMevConfig;
                 c' = c\<lparr>Routing_MintConfigList :=
                          newMintConfigs (Routing_MintConfigList c) valid2\<rparr>;
                 w3 = w2\<lparr>heap := (heap w2)(newMevConfig := c')\<rparr>
             in case SaveToFile env c' ''config.toml'' (files w3) of
                  (Some e, fs) \<Rightarrow> w3
                | (None, fs) \<Rightarrow>
                    w3\<lparr>files := fs, heap := (heap w3)(MevConfig (tracker w3) := c')\<rparr>)"

text \<open>
  \<^verbatim>\<open>FetchHotTokens\<close>: rank; on success keep the candidates, append one accumulator for
  each to those of earlier cycles, fetch the pools of every accumulator, update the
  configuration.
\<close>

definition FetchHotTokens :: "libs \<Rightarrow> os_env \<Rightarrow> http_result \<Rightarrow> world \<Rightarrow> error option \<times> world" where
  "FetchHotTokens lib env resp w =
     (case fetch_ranking lib resp of
        Inl e \<Rightarrow> (Some e, w)
      | Inr tokens \<Rightarrow>
          let infos = TokenPoolsInfos (tracker w) @ map new_info tokens;
              w1 = w\<lparr>tracker := (tracker w)\<lparr>HotTokens := tokens,
                                              TokenPoolsInfos := map (fetch_pools lib) infos\<rparr>\<rparr>
          in (None, Tracker_UpdateConfig lib env w1))"

text \<open>The sort a stable \<^verbatim>\<open>sort.SliceStable\<close> would be, for comparison.\<close>

definition stable_sort_tokens :: "HotToken list \<Rightarrow> HotToken list" where
  "stable_sort_tokens ts = sort_key (\<lambda>t. - hot_Volume15m t) ts"

definition stable_sort_infos :: "TokenPoolsInfo list \<Rightarrow> TokenPoolsInfo list" where
  "stable_sort_infos ts = sort_key (\<lambda>t. - Volume15m t) ts"

section \<open>The health-check loop\<close>

text \<open>
  One turn of the \<^verbatim>\<open>ticker.C\<close> case of \<^verbatim>\<open>monitorStatus\<close> is two critical sections. The
  first reads liveness and the flag under the read lock and releases it; when it found
  the worker stopped and not manually so, the second takes the write lock and calls
  \<^verbatim>\<open>a.proc.Start()\<close> without reading anything again. Other goroutines can take the lock
  between the two.
\<close>

definition tick_check :: "world \<Rightarrow> world" where
  "tick_check w0 =
     (let w1 = emit RLock w0 in
      if \<not> ProcessManager_IsRunning (proc w1) \<and> \<not> manuallyStopped (agent w1)
      then (emit RUnlock w1)\<lparr>monitor_pending := True\<rparr>
      else emit RUnlock w1)"

definition tick_restart :: "os_env \<Rightarrow> world \<Rightarrow> world" where
  "tick_restart env w0 =
     (let w1 = emit Lock w0;
          (err, w2) = proc_Start env w1;
          w3 = (case err of
                  Some e \<Rightarrow> BroadcastMessage (MsgAutoRestartFailed e) w2
                | None \<Rightarrow> BroadcastMessage MsgAutoRestarted w2)
      in (emit Unlock w3)\<lparr>monitor_pending := False\<rparr>)"

text \<open>The \<^verbatim>\<open>a.statusChecks\<close> case: one value is received from the channel.\<close>

definition status_check :: "world \<Rightarrow> world" where
  "status_check w0 =
     (let w1 = emit RLock (w0\<lparr>agent := (agent w0)\<lparr>statusChecks := statusChecks (agent w0) - 1\<rparr>\<rparr>);
          m = (if \<not> ProcessManager_IsRunning (proc w1)
               then (if manuallyStopped (agent w1) then MsgStatusStoppedManual
                     else MsgStatusStoppedUnexpected)
               else MsgStatusRunning)
      in BroadcastMessage m (emit RUnlock w1))"

section \<open>Runs of the system\<close>

text \<open>
  What can happen, one critical section at a time: the six operations of the agent, the
  two halves of a health-check tick, an on-demand status check, and the exit of the
  worker process. A step that is not enabled leaves the state alone: the loop only runs
  once \<^verbatim>\<open>Agent.Start\<close> has spawned it, its second half only follows a first half that
  decided to restart, and a status check needs a value in the channel.
\<close>

datatype event =
    Ev_Start os_env
  | Ev_Stop os_env
  | Ev_StopMEVBot os_env
  | Ev_StartMEVBot os_env
  | Ev_RestartMEVBot os_env
  | Ev_UpdateConfig nat os_env
  | Ev_TickCheck
  | Ev_TickRestart os_env
  | Ev_StatusCheck
  | Ev_ProcExit

fun step :: "event \<Rightarrow> world \<Rightarrow> world" where
  "step (Ev_Start env) w = snd (Agent_Start env w)"
| "step (Ev_Stop env) w = snd (Agent_Stop env w)"
| "step (Ev_StopMEVBot env) w = snd (StopMEVBot env w)"
| "step (Ev_StartMEVBot env) w = snd (StartMEVBot env w)"
| "step (Ev_RestartMEVBot env) w = snd (RestartMEVBot env w)"
| "step (Ev_UpdateConfig c env) w = snd (UpdateConfig env c w)"
| "step Ev_TickCheck w =
     (if monitor_started w \<and> \<not> monitor_pending w then tick_check w else w)"
| "step (Ev_TickRestart env) w = (if monitor_pending w then tick_restart env w else w)"
| "step Ev_StatusCheck w =
     (if monitor_started w \<and> \<not> monitor_pending w \<and> 0 < statusChecks (agent w)
      then status_check w else w)"
| "step Ev_ProcExit w = proc_exited w"

fun run :: "event list \<Rightarrow> world \<Rightarrow> world" where
  "run [] w = w"
| "run (e # es) w = run es (step e w)"

text \<open>The effects logged between two states of one run.\<close>

definition new_effects :: "world \<Rightarrow> world \<Rightarrow> effect list" where
  "new_effects w w' = drop (length (trace w)) (trace w')"

text \<open>The events that clear \<^verbatim>\<open>manuallyStopped\<close>, and the effects only a tick's restart logs.\<close>

fun clears_flag :: "event \<Rightarrow> bool" where
  "clears_flag (Ev_StartMEVBot env) = True"
| "clears_flag (Ev_RestartMEVBot env) = True"
| "clears_flag e = False"

fun is_auto_restart :: "effect \<Rightarrow> bool" where
  "is_auto_restart (Broadcast MsgAutoRestarted) = True"
| "is_auto_restart (Broadcast (MsgAutoRestartFailed e)) = True"
| "is_auto_restart e = False"

section \<open>Concrete inputs\<close>

definition cfg0 :: Config where
  "cfg0 = \<lparr>Routing_MintConfigList = [], RPC_URL = ''https://rpc.example'',
           Spam_Enabled = False, Spam_SendingRPCURLs = [],
           Spam_ComputeUnitPrice_Strategy = ''Random'', Spam_ComputeUnitPrice_From = 1,
           Spam_ComputeUnitPrice_To = 2, Spam_ComputeUnitPrice_Count = 1,
           Spam_MaxRetries = 0, Spam_EnableSimpleSend = False,
           Jito_Enabled = False, Jito_BlockEngineURLs = [], Jito_UUID = [],
           Jito_IPAddresses = [], Jito_TipConfig_Strategy = ''Random'',
           Jito_TipConfig_From = 1, Jito_TipConfig_To = 2, Jito_TipConfig_Count = 1,
           KaminoFlashloan_Enabled = False, Bot_ComputeUnitLimit = 400000,
           Bot_MergeMints = False\<rparr>"

definition agentcfg0 :: FlashAgentConfig where
  "agentcfg0 = \<lparr>Ave_Token = ''ave'', Wechat_VerifyToken = ''secret''\<rparr>"

text \<open>An operating system where everything succeeds, and one that refuses writes.\<close>

definition env_ok :: os_env where
  "env_ok = \<lparr>exe_exists = True, spawn_ok = True, sigterm_ok = True, kill_ok = True,
             exits_after_stop = False, marshal_ok = True, write_ok = True,
             upgrade_ok = True\<rparr>"

definition env_no_exe :: os_env where
  "env_no_exe = env_ok\<lparr>exe_exists := False\<rparr>"

definition env_no_write :: os_env where
  "env_no_write = env_ok\<lparr>write_ok := False\<rparr>"

definition env_no_upgrade :: os_env where
  "env_no_upgrade = env_ok\<lparr>upgrade_ok := False\<rparr>"

text \<open>The agent as \<^verbatim>\<open>main\<close> builds it, and the same with a path to persist to.\<close>

definition world0 :: world where
  "world0 = (case NewAgent ''config.toml'' (Inr cfg0) (Inr agentcfg0) Map.empty of
               Inr w \<Rightarrow> w
             | Inl e \<Rightarrow> undefined)"

definition world_path :: world where
  "world_path = world0\<lparr>agent := (agent world0)\<lparr>mevConfigPath := ''config.toml''\<rparr>\<rparr>"

section \<open>The flag discipline, as the specification words it\<close>

text \<open>The effects the discipline is about: the lock, the flag, the two lifecycle calls.\<close>

fun is_lifecycle :: "effect \<Rightarrow> bool" where
  "is_lifecycle Lock = True"
| "is_lifecycle Unlock = True"
| "is_lifecycle RLock = True"
| "is_lifecycle RUnlock = True"
| "is_lifecycle (SetManuallyStopped b) = True"
| "is_lifecycle ProcStop = True"
| "is_lifecycle ProcStart = True"
| "is_lifecycle e = False"

definition lifecycle :: "effect list \<Rightarrow> effect list" where
  "lifecycle es = filter is_lifecycle es"

text \<open>
  These effects of one operation, read as the specification reads them: the flag has
  been set to true (and not cleared since) when \<^verbatim>\<open>proc.Stop()\<close> is called; the effect
  right before a call of \<^verbatim>\<open>proc.Start()\<close> is the clearing of the flag; and the whole is
  one critical section of the exclusive lock, opened by the first effect and closed by
  the last.
\<close>

fun set_before_stop :: "bool \<Rightarrow> effect list \<Rightarrow> bool" where
  "set_before_stop flag [] = True"
| "set_before_stop flag (SetManuallyStopped b # es) = set_before_stop b es"
| "set_before_stop flag (ProcStop # es) = (flag \<and> set_before_stop flag es)"
| "set_before_stop flag (e # es) = set_before_stop flag es"

fun cleared_before_start :: "effect option \<Rightarrow> effect list \<Rightarrow> bool" where
  "cleared_before_start prev [] = True"
| "cleared_before_start prev (ProcStart # es) =
     (prev = Some (SetManuallyStopped False) \<and> cleared_before_start (Some ProcStart) es)"
| "cleared_before_start prev (e # es) = cleared_before_start (Some e) es"

definition one_critical_section :: "effect list \<Rightarrow> bool" where
  "one_critical_section es =
     (es \<noteq> [] \<and> hd es = Lock \<and> last es = Unlock
      \<and> Lock \<notin> set (tl es) \<and> Unlock \<notin> set (butlast es)
      \<and> RLock \<notin> set es \<and> RUnlock \<notin> set es)"

definition flag_discipline :: "effect list \<Rightarrow> bool" where
  "flag_discipline es =
     (set_before_stop False (lifecycle es) \<and> cleared_before_start None (lifecycle es)
      \<and> one_critical_section (lifecycle es))"

section \<open>Restarting once, as the specification words it\<close>


section \<open>The health check and the flag, as the specification words it\<close>

text \<open>
  Reading a log from the left with the flag as last written: a restart by the health
  check is logged while the flag is true.
\<close>

fun auto_restart_while_stopped :: "bool \<Rightarrow> effect list \<Rightarrow> bool" where
  "auto_restart_while_stopped flag [] = False"
| "auto_restart_while_stopped flag (SetManuallyStopped b # es) = auto_restart_while_stopped b es"
| "auto_restart_while_stopped flag (e # es) =
     (flag \<and> is_auto_restart e \<or> auto_restart_while_stopped flag es)"

section \<open>Concrete inputs of the enrichment pipeline\<close>

definition mk_token :: "string \<Rightarrow> real \<Rightarrow> HotToken" where
  "mk_token addr v =
     \<lparr>hot_Pair = [], hot_Chain = ''solana'', hot_Amm = [], hot_TargetToken = addr,
      hot_TokenSymbol = addr, hot_Volume15m = v, hot_VolumeUSD24h = 0\<rparr>"

definition response4 :: APIResponse where
  "response4 =
     \<lparr>Status = 1, Data_Total = 4, Data_PageNO = 1, Data_PageSize = 40,
      Data_Data = [mk_token ''a'' 50, mk_token ''b'' 10, mk_token ''c'' 80, mk_token ''d'' 30]\<rparr>"


definition mk_info :: "string \<Rightarrow> real \<Rightarrow> string list \<Rightarrow> string list \<Rightarrow> string list
    \<Rightarrow> string list \<Rightarrow> TokenPoolsInfo" where
  "mk_info addr v pump meteora raydium raydiumcp =
     \<lparr>TokenAddress = addr, TokenSymbol = addr, Volume15m = v, PumpPools = pump,
      MeteoraLists = meteora, RaydiumPools = raydium, RaydiumCPPools = raydiumcp\<rparr>"

definition infos0 :: "TokenPoolsInfo list" where
  "infos0 =
     [mk_info ''Apump'' 10 [''p1'', ''p2'', ''p3''] [] [''r1''] [],
      mk_info ''Bpump'' 90 [''p4'', ''p5''] [] [] [],
      mk_info ''Csol'' 70 [''p6''] [''m1''] [] [],
      mk_info ''Dpump'' 40 [''p7''] [''m2''] [] [],
      mk_info ''Epump'' 20 [] [] [''r2''] [''c1''],
      mk_info ''Fpump'' 30 [''p8''] [] [] [''c2'']]"

definition snapshot0 :: "MintConfig list" where
  "snapshot0 =
     [\<lparr>Mint = ''Dpump'', PumpPoolList = [''old''], RaydiumPoolList = [''oldr''],
       RaydiumCPPoolList = [], MeteoraPoolList = [''oldm''],
       LookupTableAccounts = [''lut''], ProcessDelay = 400\<rparr>,
      \<lparr>Mint = ''Gone'', PumpPoolList = [''x''], RaydiumPoolList = [],
       RaydiumCPPoolList = [], MeteoraPoolList = [], LookupTableAccounts = [],
       ProcessDelay = 7\<rparr>]"

text \<open>The agent with these accumulators in its tracker and these routes in force.\<close>

definition world_tracker :: world where
  "world_tracker =
     world0\<lparr>heap := (\<lambda>_. cfg0\<lparr>Routing_MintConfigList := snapshot0\<rparr>),
            tracker := \<lparr>HotTokens = [], TokenPoolsInfos = infos0, MevConfig = 0\<rparr>\<rparr>"

section \<open>Concrete inputs of the control socket\<close>

definition lib0 :: libs where
  "lib0 = \<lparr>json_Unmarshal_Config = (\<lambda>s. if s = ''{}'' then Some cfg0 else None),
           json_Unmarshal_MintConfig = (\<lambda>s. None),
           json_Unmarshal_string = (\<lambda>s. Some s),
           json_Unmarshal_value = (\<lambda>s. Some s),
           json_Unmarshal_rpc = (\<lambda>s. Some s),
           json_Unmarshal_feature = (\<lambda>s. Some (s, True)),
           json_Unmarshal_APIResponse = (\<lambda>s. if s = ''four'' then Some response4 else None),
           json_roundtrip = (\<lambda>c. c),
           toml_set = (\<lambda>path val c. (Some UpdateSectionFailed, c)),
           sort_tokens = stable_sort_tokens,
           sort_infos = stable_sort_infos,
           fetch_pools = (\<lambda>info. info)\<rparr>"


definition status_cmd :: Command where
  "status_cmd = \<lparr>cmd_Type = ''bot'', cmd_Action = ''status'', cmd_Section = [],
                  cmd_Key = [], cmd_Value = []\<rparr>"


text \<open>The agent with one status check waiting in the channel.\<close>

definition world_pending :: world where
  "world_pending = world0\<lparr>agent := (agent world0)\<lparr>statusChecks := 1\<rparr>\<rparr>"

section \<open>What a handler may do to the store\<close>


section \<open>Unfolding the model\<close>

text \<open>What each primitive changes, field by field.\<close>

lemma emit_frame [simp]:
  "agent (emit e w) = agent w"
  "proc (emit e w) = proc w"
  "heap (emit e w) = heap w"
  "next_addr (emit e w) = next_addr w"
  "files (emit e w) = files w"
  "clients (emit e w) = clients w"
  "next_conn (emit e w) = next_conn w"
  "tracker (emit e w) = tracker w"
  "monitor_started (emit e w) = monitor_started w"
  "monitor_pending (emit e w) = monitor_pending w"
  by (simp_all add: emit_def)

lemma emit_trace [simp]: "trace (emit e w) = trace w @ [e]"
  by (simp add: emit_def)

lemma set_manuallyStopped_frame [simp]:
  "proc (set_manuallyStopped b w) = proc w"
  "heap (set_manuallyStopped b w) = heap w"
  "next_addr (set_manuallyStopped b w) = next_addr w"
  "files (set_manuallyStopped b w) = files w"
  "clients (set_manuallyStopped b w) = clients w"
  "next_conn (set_manuallyStopped b w) = next_conn w"
  "tracker (set_manuallyStopped b w) = tracker w"
  "monitor_started (set_manuallyStopped b w) = monitor_started w"
  "monitor_pending (set_manuallyStopped b w) = monitor_pending w"
  by (simp_all add: set_manuallyStopped_def emit_def)

lemma set_manuallyStopped_simps [simp]:
  "trace (set_manuallyStopped b w) = trace w @ [SetManuallyStopped b]"
  "agent (set_manuallyStopped b w) = (agent w)\<lparr>manuallyStopped := b\<rparr>"
  by (simp_all add: set_manuallyStopped_def emit_def)

lemma BroadcastMessage_frame [simp]:
  "agent (BroadcastMessage m w) = agent w"
  "proc (BroadcastMessage m w) = proc w"
  "heap (BroadcastMessage m w) = heap w"
  "next_addr (BroadcastMessage m w) = next_addr w"
  "files (BroadcastMessage m w) = files w"
  "clients (BroadcastMessage m w) = clients w"
  "next_conn (BroadcastMessage m w) = next_conn w"
  "tracker (BroadcastMessage m w) = tracker w"
  "monitor_started (BroadcastMessage m w) = monitor_started w"
  "monitor_pending (BroadcastMessage m w) = monitor_pending w"
  by (simp_all add: BroadcastMessage_def emit_def)

lemma BroadcastMessage_trace [simp]: "trace (BroadcastMessage m w) = trace w @ [Broadcast m]"
  by (simp add: BroadcastMessage_def emit_def)

lemma proc_Stop_frame [simp]:
  "agent (snd (proc_Stop env w)) = agent w"
  "proc (snd (proc_Stop env w)) = proc w"
  "heap (snd (proc_Stop env w)) = heap w"
  "next_addr (snd (proc_Stop env w)) = next_addr w"
  "files (snd (proc_Stop env w)) = files w"
  "clients (snd (proc_Stop env w)) = clients w"
  "next_conn (snd (proc_Stop env w)) = next_conn w"
  "tracker (snd (proc_Stop env w)) = tracker w"
  "monitor_started (snd (proc_Stop env w)) = monitor_started w"
  "monitor_pending (snd (proc_Stop env w)) = monitor_pending w"
  by (simp_all add: proc_Stop_def ProcessManager_Stop_def)

lemma proc_Stop_simps [simp]:
  "fst (proc_Stop env w) = fst (ProcessManager_Stop env (proc w))"
  "trace (snd (proc_Stop env w)) =
     trace w @ ProcStop # snd (snd (ProcessManager_Stop env (proc w)))"
  by (simp_all add: proc_Stop_def ProcessManager_Stop_def)

lemma proc_Start_frame [simp]:
  "agent (snd (proc_Start env w)) = agent w"
  "heap (snd (proc_Start env w)) = heap w"
  "next_addr (snd (proc_Start env w)) = next_addr w"
  "files (snd (proc_Start env w)) = files w"
  "clients (snd (proc_Start env w)) = clients w"
  "next_conn (snd (proc_Start env w)) = next_conn w"
  "tracker (snd (proc_Start env w)) = tracker w"
  "monitor_started (snd (proc_Start env w)) = monitor_started w"
  "monitor_pending (snd (proc_Start env w)) = monitor_pending w"
  by (simp_all add: proc_Start_def split: prod.splits)

lemma proc_Start_simps [simp]:
  "fst (proc_Start env w) = fst (ProcessManager_Start env (proc w))"
  "proc (snd (proc_Start env w)) = fst (snd (ProcessManager_Start env (proc w)))"
  "trace (snd (proc_Start env w)) =
     trace w @ ProcStart # snd (snd (ProcessManager_Start env (proc w)))"
  by (simp_all add: proc_Start_def split: prod.splits)

lemma proc_exited_frame [simp]:
  "agent (proc_exited w) = agent w"
  "heap (proc_exited w) = heap w"
  "next_addr (proc_exited w) = next_addr w"
  "files (proc_exited w) = files w"
  "clients (proc_exited w) = clients w"
  "next_conn (proc_exited w) = next_conn w"
  "tracker (proc_exited w) = tracker w"
  "trace (proc_exited w) = trace w"
  "monitor_started (proc_exited w) = monitor_started w"
  "monitor_pending (proc_exited w) = monitor_pending w"
  by (simp_all add: proc_exited_def)

lemma proc_exited_proc [simp]: "proc (proc_exited w) = ProcessManager_exited (proc w)"
  by (simp add: proc_exited_def)

lemma exit_between_frame [simp]:
  "agent (exit_between env w) = agent w"
  "heap (exit_between env w) = heap w"
  "next_addr (exit_between env w) = next_addr w"
  "files (exit_between env w) = files w"
  "clients (exit_between env w) = clients w"
  "next_conn (exit_between env w) = next_conn w"
  "tracker (exit_between env w) = tracker w"
  "trace (exit_between env w) = trace w"
  "monitor_started (exit_between env w) = monitor_started w"
  "monitor_pending (exit_between env w) = monitor_pending w"
  by (simp_all add: exit_between_def proc_exited_def)

lemma exit_between_proc [simp]:
  "proc (exit_between env w) =
     (if exits_after_stop env then ProcessManager_exited (proc w) else proc w)"
  by (simp add: exit_between_def proc_exited_def)

lemma Stop_effects: "snd (snd (ProcessManager_Stop env p)) \<in> {[], [SigTerm], [Kill]}"
  by (simp add: ProcessManager_Stop_def)

lemma Start_effects: "snd (snd (ProcessManager_Start env p)) \<in> {[], [Spawn]}"
  by (simp add: ProcessManager_Start_def)

lemma ProcessManager_Stop_same [simp]: "fst (snd (ProcessManager_Stop env p)) = p"
  by (simp add: ProcessManager_Stop_def)

lemma lifecycle_Stop_effects [simp]: "lifecycle (snd (snd (ProcessManager_Stop env p))) = []"
  using Stop_effects [of env p] by (auto simp: lifecycle_def)

lemma lifecycle_Start_effects [simp]: "lifecycle (snd (snd (ProcessManager_Start env p))) = []"
  using Start_effects [of env p] by (auto simp: lifecycle_def)

lemma lifecycle_append [simp]: "lifecycle (xs @ ys) = lifecycle xs @ lifecycle ys"
  by (simp add: lifecycle_def)

lemma lifecycle_Cons [simp]:
  "lifecycle (e # es) = (if is_lifecycle e then e # lifecycle es else lifecycle es)"
  by (simp add: lifecycle_def)

lemma lifecycle_Nil [simp]: "lifecycle [] = []"
  by (simp add: lifecycle_def)

lemma new_effects_trace: "trace w' = trace w @ es \<Longrightarrow> new_effects w w' = es"
  by (simp add: new_effects_def)

section \<open>The effects of each operation\<close>

lemma trace_Agent_Stop:
  "trace (snd (Agent_Stop env w)) = trace w @
     (if isRunning (agent w)
      then Lock # SetManuallyStopped True # CancelCtx # ProcStop #
           snd (snd (ProcessManager_Stop env (proc w))) @ [WsStop, Unlock]
      else [Lock, Unlock])"
  by (simp add: Agent_Stop_def Let_def split_beta)

lemma trace_StopMEVBot:
  "trace (snd (StopMEVBot env w)) = trace w @
     Lock # SetManuallyStopped True # ProcStop #
     snd (snd (ProcessManager_Stop env (proc w))) @
     (if fst (ProcessManager_Stop env (proc w)) \<noteq> None then [Unlock]
      else [Broadcast MsgManuallyStopped, Unlock])"
  by (simp add: StopMEVBot_def Let_def split_beta split: option.splits)

lemma trace_StartMEVBot:
  "trace (snd (StartMEVBot env w)) = trace w @
     Lock # SetManuallyStopped False # ProcStart #
     snd (snd (ProcessManager_Start env (proc w))) @
     (if fst (ProcessManager_Start env (proc w)) \<noteq> None then [Unlock]
      else [Broadcast MsgManuallyStarted, Unlock])"
  by (simp add: StartMEVBot_def Let_def split_beta split: option.splits)

lemma trace_RestartMEVBot:
  "trace (snd (RestartMEVBot env w)) = trace w @
     (if fst (ProcessManager_Stop env (proc w)) \<noteq> None
      then Lock # ProcStop # snd (snd (ProcessManager_Stop env (proc w))) @ [Unlock]
      else Lock # ProcStop # snd (snd (ProcessManager_Stop env (proc w))) @
           SetManuallyStopped True # ProcStart #
           snd (snd (ProcessManager_Start env (proc (exit_between env w)))) @
           (if fst (RestartMEVBot env w) \<noteq> None then [Unlock]
            else [SetManuallyStopped False, Broadcast MsgRestarted, Unlock]))"
  by (simp add: RestartMEVBot_def Let_def split_beta split: option.splits)

lemma trace_UpdateConfig:
  "trace (snd (UpdateConfig env c w)) = trace w @
     (if fst (SaveToFile env (heap w c) (mevConfigPath (agent w)) (files w)) \<noteq> None
      then [Lock, Unlock]
      else Lock # WroteFile (mevConfigPath (agent w)) # SetMevConfig c # ProcStop #
           snd (snd (ProcessManager_Stop env (proc w))) @ ProcStart #
           snd (snd (ProcessManager_Start env (proc (exit_between env w)))) @
           (if fst (UpdateConfig env c w) \<noteq> None then [Unlock]
            else [Broadcast MsgConfigUpdated, Unlock]))"
  by (simp add: UpdateConfig_def Let_def split_beta split: option.splits prod.splits)

section \<open>The flag and the lifecycle calls of each operation\<close>

lemma lifecycle_Agent_Stop:
  "lifecycle (new_effects w (snd (Agent_Stop env w))) =
     (if isRunning (agent w) then [Lock, SetManuallyStopped True, ProcStop, Unlock]
      else [Lock, Unlock])"
  by (simp add: new_effects_def trace_Agent_Stop)

lemma lifecycle_StopMEVBot:
  "lifecycle (new_effects w (snd (StopMEVBot env w))) =
     [Lock, SetManuallyStopped True, ProcStop, Unlock]"
  by (simp add: new_effects_def trace_StopMEVBot)

lemma lifecycle_StartMEVBot:
  "lifecycle (new_effects w (snd (StartMEVBot env w))) =
     [Lock, SetManuallyStopped False, ProcStart, Unlock]"
  by (simp add: new_effects_def trace_StartMEVBot)

lemma lifecycle_RestartMEVBot:
  "lifecycle (new_effects w (snd (RestartMEVBot env w))) =
     (if fst (ProcessManager_Stop env (proc w)) \<noteq> None then [Lock, ProcStop, Unlock]
      else if fst (RestartMEVBot env w) \<noteq> None
      then [Lock, ProcStop, SetManuallyStopped True, ProcStart, Unlock]
      else [Lock, ProcStop, SetManuallyStopped True, ProcStart,
            SetManuallyStopped False, Unlock])"
  by (simp add: new_effects_def trace_RestartMEVBot)

lemma lifecycle_UpdateConfig:
  "lifecycle (new_effects w (snd (UpdateConfig env c w))) =
     (if fst (SaveToFile env (heap w c) (mevConfigPath (agent w)) (files w)) \<noteq> None
      then [Lock, Unlock] else [Lock, ProcStop, ProcStart, Unlock])"
  by (simp add: new_effects_def trace_UpdateConfig)

lemma one_critical_section_lifecycle:
  "one_critical_section (lifecycle (new_effects w (snd (Agent_Stop env w))))"
  "one_critical_section (lifecycle (new_effects w (snd (StopMEVBot env w))))"
  "one_critical_section (lifecycle (new_effects w (snd (StartMEVBot env w))))"
  "one_critical_section (lifecycle (new_effects w (snd (RestartMEVBot env w))))"
  "one_critical_section (lifecycle (new_effects w (snd (UpdateConfig env c w))))"
  by (simp_all add: lifecycle_Agent_Stop lifecycle_StopMEVBot lifecycle_StartMEVBot
      lifecycle_RestartMEVBot lifecycle_UpdateConfig one_critical_section_def)

lemma world0_simps:
  "proc world0 = \<lparr>pm_isRunning = False, pm_hasProcess = False\<rparr>"
  "trace world0 = []"
  "mevConfigPath (agent world0) = []"
  "mevConfig (agent world0) = 0"
  "manuallyStopped (agent world0) = False"
  "isRunning (agent world0) = False"
  "statusChecks (agent world0) = 0"
  "agentConfig (agent world0) = Some agentcfg0"
  "heap world0 = (\<lambda>_. cfg0)"
  "next_addr world0 = 1"
  "files world0 = Map.empty"
  "clients world0 = {}"
  "next_conn world0 = 0"
  "monitor_started world0 = False"
  "monitor_pending world0 = False"
  by (simp_all add: world0_def NewAgent_def)

lemma world_path_simps:
  "proc world_path = proc world0"
  "trace world_path = []"
  "mevConfigPath (agent world_path) = ''config.toml''"
  "mevConfig (agent world_path) = 0"
  "manuallyStopped (agent world_path) = False"
  "heap world_path = (\<lambda>_. cfg0)"
  "files world_path = Map.empty"
  by (simp_all add: world_path_def world0_simps)

text \<open>
  Claim C2, as stated, says that the effects of every one of \<^verbatim>\<open>Stop\<close>, \<^verbatim>\<open>StopMEVBot\<close>,
  \<^verbatim>\<open>StartMEVBot\<close>, \<^verbatim>\<open>RestartMEVBot\<close> and \<^verbatim>\<open>UpdateConfig\<close> satisfy \<open>flag_discipline\<close>. It
  fails for the last two. \<^verbatim>\<open>RestartMEVBot\<close> calls \<^verbatim>\<open>proc.Stop()\<close> before it sets the flag
  and clears the flag after \<^verbatim>\<open>proc.Start()\<close>; \<^verbatim>\<open>UpdateConfig\<close> calls both and never
  touches the flag.
\<close>

theorem flag_discipline_counterexample:
  "\<not> flag_discipline (new_effects world0 (snd (RestartMEVBot env_ok world0)))
   \<and> \<not> flag_discipline (new_effects world_path (snd (UpdateConfig env_ok 0 world_path)))"
  by (simp add: flag_discipline_def lifecycle_RestartMEVBot lifecycle_UpdateConfig
      ProcessManager_Stop_def world0_simps SaveToFile_def os_WriteFile_def env_ok_def
      world_path_simps)

text \<open>
  Claim C2, amended: what each operation does with the lock, the flag and the two
  lifecycle calls, in order. \<^verbatim>\<open>Stop\<close> (of a running agent) and \<^verbatim>\<open>StopMEVBot\<close> set the flag
  and then call \<^verbatim>\<open>proc.Stop()\<close>; \<^verbatim>\<open>StartMEVBot\<close> clears it and then calls
  \<^verbatim>\<open>proc.Start()\<close>; \<^verbatim>\<open>RestartMEVBot\<close> calls \<^verbatim>\<open>proc.Stop()\<close>, and when that succeeds sets
  the flag and calls \<^verbatim>\<open>proc.Start()\<close>, and when that succeeds too clears the flag;
  \<^verbatim>\<open>UpdateConfig\<close>, once the configuration is persisted, calls \<^verbatim>\<open>proc.Stop()\<close> and
  \<^verbatim>\<open>proc.Start()\<close> and leaves the flag alone. Each operation is one critical section of
  the exclusive lock: it opens with \<open>Lock\<close>, closes with \<open>Unlock\<close>, and holds no other
  lock operation.
\<close>

theorem flag_and_lifecycle_order:
  "lifecycle (new_effects w (snd (Agent_Stop env w))) =
     (if isRunning (agent w) then [Lock, SetManuallyStopped True, ProcStop, Unlock]
      else [Lock, Unlock])
   \<and> lifecycle (new_effects w (snd (StopMEVBot env w))) =
       [Lock, SetManuallyStopped True, ProcStop, Unlock]
   \<and> lifecycle (new_effects w (snd (StartMEVBot env w))) =
       [Lock, SetManuallyStopped False, ProcStart, Unlock]
   \<and> lifecycle (new_effects w (snd (RestartMEVBot env w))) =
       (if fst (ProcessManager_Stop env (proc w)) \<noteq> None then [Lock, ProcStop, Unlock]
        else if fst (RestartMEVBot env w) \<noteq> None
        then [Lock, ProcStop, SetManuallyStopped True, ProcStart, Unlock]
        else [Lock, ProcStop, SetManuallyStopped True, ProcStart,
              SetManuallyStopped False, Unlock])
   \<and> lifecycle (new_effects w (snd (UpdateConfig env c w))) =
       (if fst (SaveToFile env (heap w c) (mevConfigPath (agent w)) (files w)) \<noteq> None
        then [Lock, Unlock] else [Lock, ProcStop, ProcStart, Unlock])
   \<and> one_critical_section (lifecycle (new_effects w (snd (Agent_Stop env w))))
   \<and> one_critical_section (lifecycle (new_effects w (snd (StopMEVBot env w))))
   \<and> one_critical_section (lifecycle (new_effects w (snd (StartMEVBot env w))))
   \<and> one_critical_section (lifecycle (new_effects w (snd (RestartMEVBot env w))))
   \<and> one_critical_section (lifecycle (new_effects w (snd (UpdateConfig env c w))))"
  by (intro conjI lifecycle_Agent_Stop lifecycle_StopMEVBot lifecycle_StartMEVBot
      lifecycle_RestartMEVBot lifecycle_UpdateConfig one_critical_section_lifecycle)

section \<open>UpdateConfig\<close>



lemma env_simps:
  "exe_exists env_ok" "spawn_ok env_ok" "sigterm_ok env_ok" "kill_ok env_ok"
  "\<not> exits_after_stop env_ok" "marshal_ok env_ok" "write_ok env_ok" "upgrade_ok env_ok"
  "\<not> exe_exists env_no_exe" "spawn_ok env_no_exe" "sigterm_ok env_no_exe"
  "kill_ok env_no_exe" "\<not> exits_after_stop env_no_exe" "marshal_ok env_no_exe"
  "write_ok env_no_exe" "upgrade_ok env_no_exe"
  "exe_exists env_no_write" "spawn_ok env_no_write" "sigterm_ok env_no_write"
  "kill_ok env_no_write" "\<not> exits_after_stop env_no_write" "marshal_ok env_no_write"
  "\<not> write_ok env_no_write" "upgrade_ok env_no_write"
  "exe_exists env_no_upgrade" "spawn_ok env_no_upgrade" "sigterm_ok env_no_upgrade"
  "kill_ok env_no_upgrade" "\<not> exits_after_stop env_no_upgrade" "marshal_ok env_no_upgrade"
  "write_ok env_no_upgrade" "\<not> upgrade_ok env_no_upgrade"
  by (simp_all add: env_ok_def env_no_exe_def env_no_write_def env_no_upgrade_def)

lemma SaveToFile_eq:
  "SaveToFile env c path fs =
     (if marshal_ok env \<and> write_ok env \<and> path \<noteq> [] then (None, fs(path \<mapsto> TomlDocument c))
      else (Some (if marshal_ok env then WriteFailed else MarshalFailed), fs))"
  by (simp add: SaveToFile_def os_WriteFile_def)

lemma SaveToFile_None:
  "fst (SaveToFile env c path fs) = None \<longleftrightarrow> marshal_ok env \<and> write_ok env \<and> path \<noteq> []"
  by (simp add: SaveToFile_eq)

lemma UpdateConfig_failed:
  assumes "fst (SaveToFile env (heap w c) (mevConfigPath (agent w)) (files w)) \<noteq> None"
  shows "fst (UpdateConfig env c w) =
           fst (SaveToFile env (heap w c) (mevConfigPath (agent w)) (files w))"
    and "snd (UpdateConfig env c w) = w\<lparr>trace := trace w @ [Lock, Unlock]\<rparr>"
proof -
  have no: "\<not> (marshal_ok env \<and> write_ok env \<and> mevConfigPath (agent w) \<noteq> [])"
    using assms by (simp add: SaveToFile_None)
  show "fst (UpdateConfig env c w) =
           fst (SaveToFile env (heap w c) (mevConfigPath (agent w)) (files w))"
    using no
    by (cases "marshal_ok env"; cases "write_ok env"; cases "mevConfigPath (agent w) = []";
        simp add: UpdateConfig_def SaveToFile_eq Let_def)
  show "snd (UpdateConfig env c w) = w\<lparr>trace := trace w @ [Lock, Unlock]\<rparr>"
    using no
    by (cases "marshal_ok env"; cases "write_ok env"; cases "mevConfigPath (agent w) = []";
        simp add: UpdateConfig_def SaveToFile_eq Let_def emit_def)
qed

lemma UpdateConfig_persisted:
  assumes "fst (SaveToFile env (heap w c) (mevConfigPath (agent w)) (files w)) = None"
  shows "fst (UpdateConfig env c w) =
           fst (ProcessManager_Start env (proc (exit_between env w)))"
    and "agent (snd (UpdateConfig env c w)) = (agent w)\<lparr>mevConfig := c\<rparr>"
    and "proc (snd (UpdateConfig env c w)) =
           fst (snd (ProcessManager_Start env (proc (exit_between env w))))"
    and "heap (snd (UpdateConfig env c w)) = heap w"
    and "files (snd (UpdateConfig env c w)) =
           (files w)(mevConfigPath (agent w) \<mapsto> TomlDocument (heap w c))"
    and "next_addr (snd (UpdateConfig env c w)) = next_addr w"
    and "clients (snd (UpdateConfig env c w)) = clients w"
    and "tracker (snd (UpdateConfig env c w)) = tracker w"
    and "monitor_started (snd (UpdateConfig env c w)) = monitor_started w"
    and "monitor_pending (snd (UpdateConfig env c w)) = monitor_pending w"
proof -
  have yes: "marshal_ok env \<and> write_ok env \<and> mevConfigPath (agent w) \<noteq> []"
    using assms by (simp add: SaveToFile_None)
  show "fst (UpdateConfig env c w) =
           fst (ProcessManager_Start env (proc (exit_between env w)))"
    and "agent (snd (UpdateConfig env c w)) = (agent w)\<lparr>mevConfig := c\<rparr>"
    and "proc (snd (UpdateConfig env c w)) =
           fst (snd (ProcessManager_Start env (proc (exit_between env w))))"
    and "heap (snd (UpdateConfig env c w)) = heap w"
    and "files (snd (UpdateConfig env c w)) =
           (files w)(mevConfigPath (agent w) \<mapsto> TomlDocument (heap w c))"
    and "next_addr (snd (UpdateConfig env c w)) = next_addr w"
    and "clients (snd (UpdateConfig env c w)) = clients w"
    and "tracker (snd (UpdateConfig env c w)) = tracker w"
    and "monitor_started (snd (UpdateConfig env c w)) = monitor_started w"
    and "monitor_pending (snd (UpdateConfig env c w)) = monitor_pending w"
    using yes
    by (simp_all add: UpdateConfig_def SaveToFile_eq Let_def split_beta split: option.splits)
qed







lemma world_path_persists:
  "fst (SaveToFile env_ok (heap world_path 0) (mevConfigPath (agent world_path))
     (files world_path)) = None"
  by (simp add: SaveToFile_None env_simps world_path_simps)

text \<open>The order of \<open>flag_and_lifecycle_order\<close>, on the agent as built and on the one with a
  path.\<close>

theorem flag_and_lifecycle_order_witness:
  "lifecycle (new_effects world0 (snd (Agent_Stop env_ok world0))) = [Lock, Unlock]
   \<and> lifecycle (new_effects world0 (snd (StopMEVBot env_ok world0))) =
       [Lock, SetManuallyStopped True, ProcStop, Unlock]
   \<and> lifecycle (new_effects world0 (snd (StartMEVBot env_ok world0))) =
       [Lock, SetManuallyStopped False, ProcStart, Unlock]
   \<and> lifecycle (new_effects world0 (snd (RestartMEVBot env_ok world0))) =
       [Lock, ProcStop, SetManuallyStopped True, ProcStart, SetManuallyStopped False, Unlock]
   \<and> lifecycle (new_effects world0 (snd (UpdateConfig env_ok 0 world0))) = [Lock, Unlock]
   \<and> lifecycle (new_effects world_path (snd (UpdateConfig env_ok 0 world_path))) =
       [Lock, ProcStop, ProcStart, Unlock]"
proof -
  have stop: "fst (ProcessManager_Stop env_ok (proc world0)) = None"
    by (simp add: ProcessManager_Stop_def world0_simps)
  have restart: "fst (RestartMEVBot env_ok world0) = None"
    by (simp add: RestartMEVBot_def Let_def split_beta ProcessManager_Stop_def
        ProcessManager_Start_def ProcessManager_exited_def world0_simps env_simps)
  have nosave: "fst (SaveToFile env_ok (heap world0 0) (mevConfigPath (agent world0))
      (files world0)) \<noteq> None"
    by (simp add: SaveToFile_None world0_simps)
  show ?thesis
    using flag_and_lifecycle_order [where w = world0 and env = env_ok and c = 0]
      flag_and_lifecycle_order [where w = world_path and env = env_ok and c = 0]
      stop restart nosave world_path_persists
    by (simp add: world0_simps)
qed




section \<open>The flag and the health check along a run\<close>

lemma Agent_Start_simps:
  "agent (snd (Agent_Start env w)) =
     (if \<not> isRunning (agent w) \<and> fst (ProcessManager_Start env (proc w)) = None
      then (agent w)\<lparr>isRunning := True\<rparr> else agent w)"
  "proc (snd (Agent_Start env w)) =
     (if isRunning (agent w) then proc w else fst (snd (ProcessManager_Start env (proc w))))"
  "monitor_started (snd (Agent_Start env w)) =
     (monitor_started w
      \<or> \<not> isRunning (agent w) \<and> fst (ProcessManager_Start env (proc w)) = None)"
  "monitor_pending (snd (Agent_Start env w)) = monitor_pending w"
  "trace (snd (Agent_Start env w)) = trace w @
     (if isRunning (agent w) then [Lock, Unlock]
      else Lock # WsStart # ProcStart # snd (snd (ProcessManager_Start env (proc w))) @
           (if fst (ProcessManager_Start env (proc w)) \<noteq> None then [WsStop, Unlock]
            else [Unlock]))"
  by (simp_all add: Agent_Start_def Let_def split_beta split: option.splits)

lemma Agent_Stop_simps:
  "agent (snd (Agent_Stop env w)) =
     (if isRunning (agent w)
      then (agent w)\<lparr>manuallyStopped := True, ctx_done := True, isRunning := False\<rparr>
      else agent w)"
  "proc (snd (Agent_Stop env w)) = proc w"
  "monitor_started (snd (Agent_Stop env w)) = monitor_started w"
  "monitor_pending (snd (Agent_Stop env w)) = monitor_pending w"
  by (simp_all add: Agent_Stop_def Let_def split_beta)

lemma StopMEVBot_simps:
  "agent (snd (StopMEVBot env w)) = (agent w)\<lparr>manuallyStopped := True\<rparr>"
  "proc (snd (StopMEVBot env w)) = proc w"
  "monitor_started (snd (StopMEVBot env w)) = monitor_started w"
  "monitor_pending (snd (StopMEVBot env w)) = monitor_pending w"
  by (simp_all add: StopMEVBot_def Let_def split_beta split: option.splits)

lemma StartMEVBot_simps:
  "agent (snd (StartMEVBot env w)) = (agent w)\<lparr>manuallyStopped := False\<rparr>"
  "proc (snd (StartMEVBot env w)) = fst (snd (ProcessManager_Start env (proc w)))"
  "monitor_started (snd (StartMEVBot env w)) = monitor_started w"
  "monitor_pending (snd (StartMEVBot env w)) = monitor_pending w"
  by (simp_all add: StartMEVBot_def Let_def split_beta split: option.splits)

lemma UpdateConfig_flag:
  "manuallyStopped (agent (snd (UpdateConfig env c w))) = manuallyStopped (agent w)"
  "monitor_started (snd (UpdateConfig env c w)) = monitor_started w"
  "monitor_pending (snd (UpdateConfig env c w)) = monitor_pending w"
  by (cases "fst (SaveToFile env (heap w c) (mevConfigPath (agent w)) (files w)) = None";
      simp add: UpdateConfig_persisted UpdateConfig_failed)+

lemma tick_check_simps:
  "agent (tick_check w) = agent w"
  "proc (tick_check w) = proc w"
  "monitor_started (tick_check w) = monitor_started w"
  "monitor_pending (tick_check w) =
     (monitor_pending w \<or> \<not> pm_isRunning (proc w) \<and> \<not> manuallyStopped (agent w))"
  "trace (tick_check w) = trace w @ [RLock, RUnlock]"
  by (simp_all add: tick_check_def Let_def ProcessManager_IsRunning_def)

lemma tick_restart_simps:
  "agent (tick_restart env w) = agent w"
  "proc (tick_restart env w) = fst (snd (ProcessManager_Start env (proc w)))"
  "monitor_started (tick_restart env w) = monitor_started w"
  "monitor_pending (tick_restart env w) = False"
  "trace (tick_restart env w) = trace w @
     Lock # ProcStart # snd (snd (ProcessManager_Start env (proc w))) @
     [Broadcast (case fst (ProcessManager_Start env (proc w)) of
                   Some e \<Rightarrow> MsgAutoRestartFailed e | None \<Rightarrow> MsgAutoRestarted),
      Unlock]"
  by (simp_all add: tick_restart_def Let_def split_beta split: option.splits)

lemma status_check_simps:
  "manuallyStopped (agent (status_check w)) = manuallyStopped (agent w)"
  "proc (status_check w) = proc w"
  "monitor_started (status_check w) = monitor_started w"
  "monitor_pending (status_check w) = monitor_pending w"
  "trace (status_check w) = trace w @
     [RLock, RUnlock,
      Broadcast (if \<not> pm_isRunning (proc w)
                 then (if manuallyStopped (agent w) then MsgStatusStoppedManual
                       else MsgStatusStoppedUnexpected)
                 else MsgStatusRunning)]"
  by (simp_all add: status_check_def Let_def ProcessManager_IsRunning_def)

lemma no_auto_restart_effects [simp]:
  "\<not> list_ex is_auto_restart (snd (snd (ProcessManager_Stop env p)))"
  "\<not> list_ex is_auto_restart (snd (snd (ProcessManager_Start env p)))"
  using Stop_effects [of env p] Start_effects [of env p] by auto

text \<open>The flag, once set, stays set until an operation that clears it.\<close>

lemma step_keeps_flag:
  "manuallyStopped (agent w) \<Longrightarrow> \<not> clears_flag e \<Longrightarrow> manuallyStopped (agent (step e w))"
  by (cases e)
     (simp_all add: Agent_Start_simps Agent_Stop_simps StopMEVBot_simps UpdateConfig_flag
        tick_check_simps tick_restart_simps status_check_simps)

lemma run_keeps_flag:
  "manuallyStopped (agent w) \<Longrightarrow> \<not> list_ex clears_flag es \<Longrightarrow>
     manuallyStopped (agent (run es w))"
  by (induction es arbitrary: w) (simp_all add: step_keeps_flag)

text \<open>With the flag set and no tick between its two halves, no tick gets there.\<close>

lemma step_keeps_idle:
  "manuallyStopped (agent w) \<Longrightarrow> \<not> monitor_pending w \<Longrightarrow> \<not> clears_flag e \<Longrightarrow>
     \<not> monitor_pending (step e w)"
  by (cases e)
     (simp_all add: Agent_Start_simps Agent_Stop_simps StopMEVBot_simps UpdateConfig_flag
        tick_check_simps tick_restart_simps status_check_simps)

lemma step_no_auto_restart:
  "\<not> monitor_pending w \<Longrightarrow>
     \<exists>es. trace (step e w) = trace w @ es \<and> \<not> list_ex is_auto_restart es"
  by (cases e)
     (simp_all add: Agent_Start_simps trace_Agent_Stop trace_StopMEVBot trace_StartMEVBot
        trace_RestartMEVBot trace_UpdateConfig tick_check_simps status_check_simps)

lemma run_no_auto_restart:
  "manuallyStopped (agent w) \<Longrightarrow> \<not> monitor_pending w \<Longrightarrow> \<not> list_ex clears_flag es \<Longrightarrow>
     \<not> monitor_pending (run es w)
     \<and> (\<exists>es'. trace (run es w) = trace w @ es' \<and> \<not> list_ex is_auto_restart es')"
proof (induction es arbitrary: w)
  case Nil
  then show ?case by simp
next
  case (Cons e es)
  from Cons.prems have ne: "\<not> clears_flag e" and nes: "\<not> list_ex clears_flag es"
    by simp_all
  have flag: "manuallyStopped (agent (step e w))"
    using Cons.prems(1) ne by (rule step_keeps_flag)
  have idle: "\<not> monitor_pending (step e w)"
    using Cons.prems(1,2) ne by (rule step_keeps_idle)
  obtain es1 where e1: "trace (step e w) = trace w @ es1" "\<not> list_ex is_auto_restart es1"
    using step_no_auto_restart [OF Cons.prems(2)] by blast
  from Cons.IH [OF flag idle nes] obtain es2 where
    p: "\<not> monitor_pending (run es (step e w))" and
    e2: "trace (run es (step e w)) = trace (step e w) @ es2" "\<not> list_ex is_auto_restart es2"
    by blast
  have "trace (run (e # es) w) = trace w @ (es1 @ es2)"
    using e1 e2 by simp
  moreover have "\<not> list_ex is_auto_restart (es1 @ es2)"
    using e1 e2 by simp
  ultimately show ?case
    using p by auto
qed


text \<open>
  After \<^verbatim>\<open>StopMEVBot\<close>, along any run without \<^verbatim>\<open>StartMEVBot\<close> and \<^verbatim>\<open>RestartMEVBot\<close>, the
  flag stays true and no health check restarts the worker, provided no tick stood
  between its two halves when \<^verbatim>\<open>StopMEVBot\<close> ran.
\<close>

lemma StopMEVBot_then_run:
  "\<not> monitor_pending w \<Longrightarrow> \<not> list_ex clears_flag es \<Longrightarrow>
     manuallyStopped (agent (run es (snd (StopMEVBot env w))))
     \<and> \<not> list_ex is_auto_restart
         (new_effects (snd (StopMEVBot env w)) (run es (snd (StopMEVBot env w))))"
proof -
  assume idle: "\<not> monitor_pending w" and nes: "\<not> list_ex clears_flag es"
  let ?w1 = "snd (StopMEVBot env w)"
  have flag: "manuallyStopped (agent ?w1)" and idle1: "\<not> monitor_pending ?w1"
    using idle by (simp_all add: StopMEVBot_simps)
  from run_no_auto_restart [OF flag idle1 nes] obtain es' where
    "trace (run es ?w1) = trace ?w1 @ es'" "\<not> list_ex is_auto_restart es'"
    by blast
  then have "\<not> list_ex is_auto_restart (new_effects ?w1 (run es ?w1))"
    by (simp add: new_effects_def)
  then show ?thesis
    using run_keeps_flag [OF flag nes] by simp
qed

lemma StopMEVBot_then_run_witness:
  "manuallyStopped (agent (run [Ev_TickCheck, Ev_TickRestart env_ok, Ev_ProcExit, Ev_TickCheck,
      Ev_TickRestart env_ok] (snd (StopMEVBot env_ok (run [Ev_Start env_ok] world0)))))
   \<and> \<not> list_ex is_auto_restart
       (new_effects (snd (StopMEVBot env_ok (run [Ev_Start env_ok] world0)))
          (run [Ev_TickCheck, Ev_TickRestart env_ok, Ev_ProcExit, Ev_TickCheck,
             Ev_TickRestart env_ok] (snd (StopMEVBot env_ok (run [Ev_Start env_ok] world0)))))"
proof -
  have idle: "\<not> monitor_pending (run [Ev_Start env_ok] world0)"
    by (simp add: Agent_Start_simps world0_simps)
  have nes: "\<not> list_ex clears_flag [Ev_TickCheck, Ev_TickRestart env_ok, Ev_ProcExit,
      Ev_TickCheck, Ev_TickRestart env_ok]"
    by simp
  show ?thesis
    using StopMEVBot_then_run [OF idle nes] by blast
qed

text \<open>
  Claim C1 against the code: a tick that read liveness and the flag before
  \<^verbatim>\<open>StopMEVBot\<close> took the lock starts the worker after it. The agent is started, the
  worker exits, the tick finds it stopped and not manually so and releases the read
  lock; \<^verbatim>\<open>StopMEVBot\<close> runs; the tick takes the write lock and calls \<^verbatim>\<open>proc.Start()\<close>. In
  the end the flag is true and the worker is running, restarted by the health check.
\<close>

theorem tick_restarts_after_StopMEVBot:
  "manuallyStopped (agent (run [Ev_Start env_ok, Ev_ProcExit, Ev_TickCheck,
      Ev_StopMEVBot env_ok, Ev_TickRestart env_ok] world0))
   \<and> pm_isRunning (proc (run [Ev_Start env_ok, Ev_ProcExit, Ev_TickCheck,
      Ev_StopMEVBot env_ok, Ev_TickRestart env_ok] world0))
   \<and> trace (run [Ev_Start env_ok, Ev_ProcExit, Ev_TickCheck,
      Ev_StopMEVBot env_ok, Ev_TickRestart env_ok] world0) =
      [Lock, WsStart, ProcStart, Spawn, Unlock,
       RLock, RUnlock,
       Lock, SetManuallyStopped True, ProcStop, Broadcast MsgManuallyStopped, Unlock,
       Lock, ProcStart, Spawn, Broadcast MsgAutoRestarted, Unlock]
   \<and> auto_restart_while_stopped False (trace (run [Ev_Start env_ok, Ev_ProcExit, Ev_TickCheck,
      Ev_StopMEVBot env_ok, Ev_TickRestart env_ok] world0))"
  by (simp add: Agent_Start_simps StopMEVBot_simps trace_StopMEVBot tick_check_simps
      tick_restart_simps world0_simps ProcessManager_Start_def ProcessManager_Stop_def
      ProcessManager_exited_def env_simps)

section \<open>The control socket\<close>

lemma world_pending_simps:
  "statusChecks (agent world_pending) = 1"
  "proc world_pending = proc world0"
  "manuallyStopped (agent world_pending) = False"
  "trace world_pending = []"
  by (simp_all add: world_pending_def world0_simps)

lemma status_cmd_simps: "cmd_Type status_cmd = ''bot''" "cmd_Action status_cmd = ''status''"
  by (simp_all add: status_cmd_def)

text \<open>
  Claim C3, as stated, has the handler of \<^verbatim>\<open>bot/status\<close> drop its request and still write
  its response when a check is waiting in the channel. The send is a plain \<^verbatim>\<open>ch <- v\<close>:
  with the buffer full the handler blocks in it and writes nothing.
\<close>

theorem status_command_counterexample:
  "statusChecks (agent world_pending) = statusChecks_cap
   \<and> handleCommand lib0 env_ok status_cmd world_pending = None"
  by (simp add: handleCommand_def statusChecks_send_def statusChecks_cap_def status_cmd_simps
      world_pending_simps)

text \<open>
  Claim C3, amended: with room in the channel the request is put in the buffer and the
  handler returns its response; with a check waiting (the buffer of one full) the
  handler blocks and returns nothing, and once the health-check loop has received the
  waiting check the same command puts its request in the buffer and returns its
  response. No request is dropped.
\<close>

theorem status_command_blocks:
  "cmd_Type cmd = ''bot'' \<Longrightarrow> cmd_Action cmd = ''status'' \<Longrightarrow>
   (statusChecks (agent w) < statusChecks_cap \<longrightarrow>
      handleCommand lib env cmd w =
        Some ((''status'', MessageField StatusCheckTriggered),
              w\<lparr>agent := (agent w)\<lparr>statusChecks := Suc (statusChecks (agent w))\<rparr>\<rparr>))
   \<and> (statusChecks (agent w) = statusChecks_cap \<longrightarrow>
      handleCommand lib env cmd w = None
      \<and> statusChecks (agent (status_check w)) = 0
      \<and> handleCommand lib env cmd (status_check w) =
          Some ((''status'', MessageField StatusCheckTriggered),
                (status_check w)\<lparr>agent := (agent (status_check w))\<lparr>statusChecks := 1\<rparr>\<rparr>))"
  by (simp add: handleCommand_def statusChecks_send_def statusChecks_cap_def
      status_check_def Let_def emit_def BroadcastMessage_def)

theorem status_command_blocks_witness:
  "handleCommand lib0 env_ok status_cmd world0 =
     Some ((''status'', MessageField StatusCheckTriggered), world_pending)
   \<and> handleCommand lib0 env_ok status_cmd world_pending = None
   \<and> handleCommand lib0 env_ok status_cmd (status_check world_pending) =
       Some ((''status'', MessageField StatusCheckTriggered),
             (status_check world_pending)
               \<lparr>agent := (agent (status_check world_pending))\<lparr>statusChecks := 1\<rparr>\<rparr>)"
  using status_command_blocks [OF status_cmd_simps, of world0 lib0 env_ok]
    status_command_blocks [OF status_cmd_simps, of world_pending lib0 env_ok]
  by (simp add: statusChecks_cap_def world0_simps world_pending_simps world_pending_def)

lemma handleConnections_frame:
  "agent (snd (handleConnections env token w)) = agent w"
  "heap (snd (handleConnections env token w)) = heap w"
  "proc (snd (handleConnections env token w)) = proc w"
  "files (snd (handleConnections env token w)) = files w"
  by (simp_all add: handleConnections_def Let_def split: option.splits)

text \<open>
  Claim C9, as stated, has every connection with the right token registered and
  welcomed. When \<^verbatim>\<open>upgrader.Upgrade\<close> fails the handler returns, and nothing is registered
  or sent.
\<close>

theorem handshake_counterexample:
  "Wechat_VerifyToken agentcfg0 = ''secret''
   \<and> agentConfig (agent world0) = Some agentcfg0
   \<and> handleConnections env_no_upgrade ''secret'' world0 = (UpgradeFailed, world0)"
  by (simp add: handleConnections_def world0_simps agentcfg0_def env_simps)

text \<open>
  Claim C9, amended. With the agent's configuration loaded: a request whose token
  differs from a configured (non-empty) verification token is answered 401 and that is
  all that happens: no upgrade, no registration, no welcome. A request with the right
  token, or any request when no token is configured, whose upgrade succeeds is
  registered in the client set and sent the welcome, in this order; when the upgrade
  fails nothing changes.
\<close>

theorem handshake:
  "agentConfig (agent w) = Some ac \<Longrightarrow>
   (Wechat_VerifyToken ac \<noteq> [] \<and> token \<noteq> Wechat_VerifyToken ac \<longrightarrow>
      handleConnections env token w = (Unauthorized, w\<lparr>trace := trace w @ [HttpError 401]\<rparr>))
   \<and> ((Wechat_VerifyToken ac = [] \<or> token = Wechat_VerifyToken ac) \<and> upgrade_ok env \<longrightarrow>
      fst (handleConnections env token w) = Connected (next_conn w)
      \<and> clients (snd (handleConnections env token w)) = insert (next_conn w) (clients w)
      \<and> new_effects w (snd (handleConnections env token w)) =
          [Upgraded (next_conn w), Registered (next_conn w), Welcome (next_conn w)])
   \<and> ((Wechat_VerifyToken ac = [] \<or> token = Wechat_VerifyToken ac) \<and> \<not> upgrade_ok env \<longrightarrow>
      handleConnections env token w = (UpgradeFailed, w))"
  by (auto simp: handleConnections_def Let_def emit_def new_effects_def)

theorem handshake_witness:
  "handleConnections env_ok ''guess'' world0 =
     (Unauthorized, world0\<lparr>trace := [HttpError 401]\<rparr>)
   \<and> fst (handleConnections env_ok ''secret'' world0) = Connected 0
   \<and> clients (snd (handleConnections env_ok ''secret'' world0)) = {0}
   \<and> new_effects world0 (snd (handleConnections env_ok ''secret'' world0)) =
       [Upgraded 0, Registered 0, Welcome 0]
   \<and> handleConnections env_no_upgrade ''secret'' world0 = (UpgradeFailed, world0)"
  using handshake [of world0 agentcfg0 "''guess''" env_ok]
    handshake [of world0 agentcfg0 "''secret''" env_ok]
    handshake [of world0 agentcfg0 "''secret''" env_no_upgrade]
  by (simp add: world0_simps agentcfg0_def env_simps)

section \<open>The handlers and the configuration in force\<close>


















lemma lib0_simps:
  "json_Unmarshal_rpc lib0 s = Some s" "json_roundtrip lib0 c = c"
  by (simp_all add: lib0_def)


section \<open>The ranking step\<close>










lemma stable_sort_infos_contract: "sort_Slice_infos lib0 xs"
proof -
  have "sorted (map (\<lambda>t. - Volume15m t) (sort_key (\<lambda>t. - Volume15m t) xs))"
    by (rule sorted_sort_key)
  then have "sorted_wrt (\<lambda>a b. - Volume15m a \<le> - Volume15m b)
      (sort_key (\<lambda>t. - Volume15m t) xs)"
    by (simp add: sorted_wrt_map sorted_map)
  then show ?thesis
    by (simp add: sort_Slice_infos_def lib0_def stable_sort_infos_def not_less)
qed


section \<open>The filter and the merge\<close>

lemma keeps_iff:
  "keeps i \<longleftrightarrow>
     strings_Contains (TokenAddress i) ''pump''
     \<and> 2 \<le> length (filter (\<lambda>l. l \<noteq> [])
              [PumpPools i, MeteoraLists i, RaydiumPools i, RaydiumCPPools i])"
  by (simp add: keeps_def poolTypeCount_def)

lemma validTokenInfos_eq:
  "validTokenInfos lib infos = take 2 (filter keeps (sort_infos lib infos))"
  by (simp add: validTokenInfos_def Let_def)

text \<open>
  Claim C5: a candidate is kept exactly when its address contains \<^verbatim>\<open>pump\<close> and at least
  two of its four pool lists are non-empty; the survivors are those candidates of the
  list, in descending order of 15-minute volume, and the step returns the first two of
  them (all, when there are fewer). Three pump pools and one Raydium pool are two
  categories; two pump pools and nothing else are one, and that candidate is dropped.
\<close>

theorem filter_step:
  "sort_Slice_infos lib infos \<Longrightarrow>
   (keeps i \<longleftrightarrow>
      strings_Contains (TokenAddress i) ''pump''
      \<and> 2 \<le> length (filter (\<lambda>l. l \<noteq> [])
               [PumpPools i, MeteoraLists i, RaydiumPools i, RaydiumCPPools i]))
   \<and> (\<exists>survivors. mset survivors = mset (filter keeps infos)
         \<and> sorted_wrt (\<lambda>a b. Volume15m a \<ge> Volume15m b) survivors
         \<and> validTokenInfos lib infos = take 2 survivors)
   \<and> length (validTokenInfos lib infos) = min 2 (length (filter keeps infos))
   \<and> (length (PumpPools ia) = 3 \<and> MeteoraLists ia = [] \<and> length (RaydiumPools ia) = 1
        \<and> RaydiumCPPools ia = [] \<longrightarrow>
        poolTypeCount ia = 2 \<and> (keeps ia \<longleftrightarrow> strings_Contains (TokenAddress ia) ''pump''))
   \<and> (length (PumpPools ib) = 2 \<and> MeteoraLists ib = [] \<and> RaydiumPools ib = []
        \<and> RaydiumCPPools ib = [] \<longrightarrow> poolTypeCount ib = 1 \<and> \<not> keeps ib)"
proof (intro conjI)
  assume c: "sort_Slice_infos lib infos"
  then have perm: "mset (sort_infos lib infos) = mset infos"
    and sorted: "sorted_wrt (\<lambda>a b. Volume15m a \<ge> Volume15m b) (sort_infos lib infos)"
    by (simp_all add: sort_Slice_infos_def not_less)
  let ?s = "filter keeps (sort_infos lib infos)"
  have 1: "mset ?s = mset (filter keeps infos)"
    using perm by (metis mset_filter)
  have 2: "sorted_wrt (\<lambda>a b. Volume15m a \<ge> Volume15m b) ?s"
    using sorted by (rule sorted_wrt_filter)
  show "\<exists>survivors. mset survivors = mset (filter keeps infos)
         \<and> sorted_wrt (\<lambda>a b. Volume15m a \<ge> Volume15m b) survivors
         \<and> validTokenInfos lib infos = take 2 survivors"
    using 1 2 validTokenInfos_eq by blast
  have "length ?s = length (filter keeps infos)"
    using 1 by (metis size_mset)
  then show "length (validTokenInfos lib infos) = min 2 (length (filter keeps infos))"
    by (simp add: validTokenInfos_eq)
  show "keeps i \<longleftrightarrow>
      strings_Contains (TokenAddress i) ''pump''
      \<and> 2 \<le> length (filter (\<lambda>l. l \<noteq> [])
               [PumpPools i, MeteoraLists i, RaydiumPools i, RaydiumCPPools i])"
    by (rule keeps_iff)
  show "length (PumpPools ia) = 3 \<and> MeteoraLists ia = [] \<and> length (RaydiumPools ia) = 1
        \<and> RaydiumCPPools ia = [] \<longrightarrow>
        poolTypeCount ia = 2 \<and> (keeps ia \<longleftrightarrow> strings_Contains (TokenAddress ia) ''pump'')"
    by (auto simp: keeps_def poolTypeCount_def)
  show "length (PumpPools ib) = 2 \<and> MeteoraLists ib = [] \<and> RaydiumPools ib = []
        \<and> RaydiumCPPools ib = [] \<longrightarrow> poolTypeCount ib = 1 \<and> \<not> keeps ib"
    by (auto simp: keeps_def poolTypeCount_def)
qed

lemma infos0_valid:
  "validTokenInfos lib0 infos0 =
     [mk_info ''Dpump'' 40 [''p7''] [''m2''] [] [], mk_info ''Fpump'' 30 [''p8''] [] [] [''c2'']]"
  by (simp add: validTokenInfos_eq lib0_def stable_sort_infos_def infos0_def mk_info_def
      keeps_def poolTypeCount_def)

theorem filter_step_witness:
  "validTokenInfos lib0 infos0 =
     [mk_info ''Dpump'' 40 [''p7''] [''m2''] [] [], mk_info ''Fpump'' 30 [''p8''] [] [] [''c2'']]
   \<and> length (filter keeps infos0) = 4
   \<and> keeps (mk_info ''Apump'' 10 [''p1'', ''p2'', ''p3''] [] [''r1''] [])
   \<and> \<not> keeps (mk_info ''Bpump'' 90 [''p4'', ''p5''] [] [] [])
   \<and> \<not> keeps (mk_info ''Csol'' 70 [''p6''] [''m1''] [] [])"
proof -
  have a: "length (PumpPools (mk_info ''Apump'' 10 [''p1'', ''p2'', ''p3''] [] [''r1''] [])) = 3
      \<and> MeteoraLists (mk_info ''Apump'' 10 [''p1'', ''p2'', ''p3''] [] [''r1''] []) = []
      \<and> length (RaydiumPools (mk_info ''Apump'' 10 [''p1'', ''p2'', ''p3''] [] [''r1''] [])) = 1
      \<and> RaydiumCPPools (mk_info ''Apump'' 10 [''p1'', ''p2'', ''p3''] [] [''r1''] []) = []"
    and a': "strings_Contains
      (TokenAddress (mk_info ''Apump'' 10 [''p1'', ''p2'', ''p3''] [] [''r1''] [])) ''pump''"
    by (simp_all add: mk_info_def)
  have b: "length (PumpPools (mk_info ''Bpump'' 90 [''p4'', ''p5''] [] [] [])) = 2
      \<and> MeteoraLists (mk_info ''Bpump'' 90 [''p4'', ''p5''] [] [] []) = []
      \<and> RaydiumPools (mk_info ''Bpump'' 90 [''p4'', ''p5''] [] [] []) = []
      \<and> RaydiumCPPools (mk_info ''Bpump'' 90 [''p4'', ''p5''] [] [] []) = []"
    by (simp add: mk_info_def)
  have c: "\<not> strings_Contains (TokenAddress (mk_info ''Csol'' 70 [''p6''] [''m1''] [] [])) ''pump''"
    by (simp add: mk_info_def)
  have n: "length (filter keeps infos0) = 4"
    by (simp add: infos0_def mk_info_def keeps_def poolTypeCount_def)
  show ?thesis
    using filter_step [OF stable_sort_infos_contract,
        where infos = infos0
          and i = "mk_info ''Csol'' 70 [''p6''] [''m1''] [] []"
          and ia = "mk_info ''Apump'' 10 [''p1'', ''p2'', ''p3''] [] [''r1''] []"
          and ib = "mk_info ''Bpump'' 90 [''p4'', ''p5''] [] [] []"]
      a a' b c n infos0_valid
    by simp
qed


lemma existingConfig_Some:
  "existingConfig snapshot addr = Some e \<Longrightarrow> e \<in> set snapshot \<and> Mint e = addr"
  by (induction snapshot) (auto split: if_splits)

lemma existingConfig_None:
  "existingConfig snapshot addr = None \<longleftrightarrow> addr \<notin> Mint ` set snapshot"
  by (induction snapshot) auto

lemma mintConfig_of_existing:
  assumes "existingConfig snapshot (TokenAddress info) = Some e"
  shows "mintConfig_of snapshot info =
     e\<lparr>PumpPoolList := (if PumpPools info = [] then PumpPoolList e else PumpPools info),
       MeteoraPoolList := (if MeteoraLists info = [] then MeteoraPoolList e else MeteoraLists info),
       RaydiumPoolList := (if RaydiumPools info = [] then RaydiumPoolList e else RaydiumPools info),
       RaydiumCPPoolList :=
         (if RaydiumCPPools info = [] then RaydiumCPPoolList e else RaydiumCPPools info)\<rparr>"
  using assms by (simp add: mintConfig_of_def Let_def)

lemma mintConfig_of_fresh:
  assumes "existingConfig snapshot (TokenAddress info) = None"
  shows "mintConfig_of snapshot info =
     \<lparr>Mint = TokenAddress info, PumpPoolList = PumpPools info,
      RaydiumPoolList = RaydiumPools info, RaydiumCPPoolList = RaydiumCPPools info,
      MeteoraPoolList = MeteoraLists info, LookupTableAccounts = [], ProcessDelay = 1000\<rparr>"
  using assms by (simp add: mintConfig_of_def fresh_MintConfig_def Let_def)

lemma Mint_mintConfig_of: "Mint (mintConfig_of snapshot info) = TokenAddress info"
proof (cases "existingConfig snapshot (TokenAddress info)")
  case None
  then show ?thesis by (simp add: mintConfig_of_fresh)
next
  case (Some e)
  then show ?thesis
    using existingConfig_Some [OF Some] by (simp add: mintConfig_of_existing)
qed

text \<open>What \<^verbatim>\<open>UpdateConfig\<close> of the tracker leaves in the configuration it points to.\<close>

lemma Tracker_UpdateConfig_routes:
  assumes "TokenPoolsInfos (tracker w) \<noteq> []"
    and "validTokenInfos lib (TokenPoolsInfos (tracker w)) \<noteq> []"
    and "marshal_ok env" and "write_ok env"
  shows "heap (Tracker_UpdateConfig lib env w) (MevConfig (tracker w)) =
     (json_roundtrip lib (heap w (MevConfig (tracker w))))
       \<lparr>Routing_MintConfigList :=
          newMintConfigs
            (Routing_MintConfigList (json_roundtrip lib (heap w (MevConfig (tracker w)))))
            (validTokenInfos lib (TokenPoolsInfos (tracker w)))\<rparr>"
    and "files (Tracker_UpdateConfig lib env w) ''config.toml'' =
     Some (TomlDocument (heap (Tracker_UpdateConfig lib env w) (MevConfig (tracker w))))"
proof -
  have ne: "filter keeps (sort_infos lib (TokenPoolsInfos (tracker w))) \<noteq> []"
    using assms(2) by (auto simp: validTokenInfos_eq)
  have v: "(if 2 < length (filter keeps (sort_infos lib (TokenPoolsInfos (tracker w))))
            then take 2 (filter keeps (sort_infos lib (TokenPoolsInfos (tracker w))))
            else filter keeps (sort_infos lib (TokenPoolsInfos (tracker w)))) =
           validTokenInfos lib (TokenPoolsInfos (tracker w))"
    by (simp add: validTokenInfos_def Let_def)
  show "heap (Tracker_UpdateConfig lib env w) (MevConfig (tracker w)) =
     (json_roundtrip lib (heap w (MevConfig (tracker w))))
       \<lparr>Routing_MintConfigList :=
          newMintConfigs
            (Routing_MintConfigList (json_roundtrip lib (heap w (MevConfig (tracker w)))))
            (validTokenInfos lib (TokenPoolsInfos (tracker w)))\<rparr>"
    using assms(1,3,4) ne
    by (simp add: Tracker_UpdateConfig_def Let_def Copy_def alloc_Config_def SaveToFile_eq v)
  show "files (Tracker_UpdateConfig lib env w) ''config.toml'' =
     Some (TomlDocument (heap (Tracker_UpdateConfig lib env w) (MevConfig (tracker w))))"
    using assms(1,3,4) ne
    by (simp add: Tracker_UpdateConfig_def Let_def Copy_def alloc_Config_def SaveToFile_eq v)
qed

text \<open>
  Claim C6: the route built for a surviving candidate carries the candidate's address.
  When the snapshot has a route of that address (the first such is taken), the new
  route keeps its lookup tables and delay and, of the four pool lists, replaces those
  for which the cycle found a pool and keeps the others. When it has none, the route is
  fresh: the pools found, no lookup table, delay 1000. The new list has one route per
  survivor, in their order, and nothing else; and this list is what
  \<^verbatim>\<open>HotTokensTracker.UpdateConfig\<close> leaves in the configuration when it saves.
\<close>

theorem merge_step:
  "m = mintConfig_of snapshot info \<Longrightarrow>
   Mint m = TokenAddress info
   \<and> (\<forall>e. existingConfig snapshot (TokenAddress info) = Some e \<longrightarrow>
        e \<in> set snapshot \<and> Mint e = TokenAddress info
        \<and> LookupTableAccounts m = LookupTableAccounts e \<and> ProcessDelay m = ProcessDelay e
        \<and> PumpPoolList m = (if PumpPools info = [] then PumpPoolList e else PumpPools info)
        \<and> MeteoraPoolList m =
            (if MeteoraLists info = [] then MeteoraPoolList e else MeteoraLists info)
        \<and> RaydiumPoolList m =
            (if RaydiumPools info = [] then RaydiumPoolList e else RaydiumPools info)
        \<and> RaydiumCPPoolList m =
            (if RaydiumCPPools info = [] then RaydiumCPPoolList e else RaydiumCPPools info))
   \<and> (TokenAddress info \<in> Mint ` set snapshot \<longrightarrow>
        existingConfig snapshot (TokenAddress info) \<noteq> None)
   \<and> (TokenAddress info \<notin> Mint ` set snapshot \<longrightarrow>
        m = \<lparr>Mint = TokenAddress info, PumpPoolList = PumpPools info,
             RaydiumPoolList = RaydiumPools info, RaydiumCPPoolList = RaydiumCPPools info,
             MeteoraPoolList = MeteoraLists info, LookupTableAccounts = [],
             ProcessDelay = 1000\<rparr>)
   \<and> newMintConfigs snapshot valid = map (mintConfig_of snapshot) valid
   \<and> map Mint (newMintConfigs snapshot valid) = map TokenAddress valid
   \<and> (TokenPoolsInfos (tracker w) \<noteq> []
        \<and> validTokenInfos lib (TokenPoolsInfos (tracker w)) \<noteq> []
        \<and> marshal_ok env \<and> write_ok env \<longrightarrow>
        Routing_MintConfigList (heap (Tracker_UpdateConfig lib env w) (MevConfig (tracker w))) =
          newMintConfigs
            (Routing_MintConfigList (json_roundtrip lib (heap w (MevConfig (tracker w)))))
            (validTokenInfos lib (TokenPoolsInfos (tracker w))))"
proof (intro conjI impI allI)
  assume m: "m = mintConfig_of snapshot info"
  show "Mint m = TokenAddress info"
    by (simp add: m Mint_mintConfig_of)
  show "newMintConfigs snapshot valid = map (mintConfig_of snapshot) valid"
    by (simp add: newMintConfigs_def)
  show "map Mint (newMintConfigs snapshot valid) = map TokenAddress valid"
    by (simp add: newMintConfigs_def Mint_mintConfig_of)
  {
    fix e assume e: "existingConfig snapshot (TokenAddress info) = Some e"
    show "e \<in> set snapshot" and "Mint e = TokenAddress info"
      using existingConfig_Some [OF e] by simp_all
    show "LookupTableAccounts m = LookupTableAccounts e"
      and "ProcessDelay m = ProcessDelay e"
      and "PumpPoolList m = (if PumpPools info = [] then PumpPoolList e else PumpPools info)"
      and "MeteoraPoolList m =
            (if MeteoraLists info = [] then MeteoraPoolList e else MeteoraLists info)"
      and "RaydiumPoolList m =
            (if RaydiumPools info = [] then RaydiumPoolList e else RaydiumPools info)"
      and "RaydiumCPPoolList m =
            (if RaydiumCPPools info = [] then RaydiumCPPoolList e else RaydiumCPPools info)"
      by (simp_all add: m mintConfig_of_existing [OF e])
  }
  {
    assume "TokenAddress info \<in> Mint ` set snapshot"
    then show "existingConfig snapshot (TokenAddress info) \<noteq> None"
      by (simp add: existingConfig_None)
  }
  {
    assume "TokenAddress info \<notin> Mint ` set snapshot"
    then have "existingConfig snapshot (TokenAddress info) = None"
      by (simp add: existingConfig_None)
    then show "m = \<lparr>Mint = TokenAddress info, PumpPoolList = PumpPools info,
             RaydiumPoolList = RaydiumPools info, RaydiumCPPoolList = RaydiumCPPools info,
             MeteoraPoolList = MeteoraLists info, LookupTableAccounts = [],
             ProcessDelay = 1000\<rparr>"
      by (simp add: m mintConfig_of_fresh)
  }
  {
    assume "TokenPoolsInfos (tracker w) \<noteq> []
        \<and> validTokenInfos lib (TokenPoolsInfos (tracker w)) \<noteq> []
        \<and> marshal_ok env \<and> write_ok env"
    then show "Routing_MintConfigList
          (heap (Tracker_UpdateConfig lib env w) (MevConfig (tracker w))) =
          newMintConfigs
            (Routing_MintConfigList (json_roundtrip lib (heap w (MevConfig (tracker w)))))
            (validTokenInfos lib (TokenPoolsInfos (tracker w)))"
      by (simp add: Tracker_UpdateConfig_routes(1))
  }
qed


lemma snapshot0_existing:
  "existingConfig snapshot0 ''Dpump'' =
     Some \<lparr>Mint = ''Dpump'', PumpPoolList = [''old''], RaydiumPoolList = [''oldr''],
            RaydiumCPPoolList = [], MeteoraPoolList = [''oldm''],
            LookupTableAccounts = [''lut''], ProcessDelay = 400\<rparr>"
  "''Dpump'' \<in> Mint ` set snapshot0"
  "''Fpump'' \<notin> Mint ` set snapshot0"
  by (simp_all add: snapshot0_def)

lemma world_tracker_simps:
  "TokenPoolsInfos (tracker world_tracker) = infos0"
  "MevConfig (tracker world_tracker) = 0"
  "heap world_tracker 0 = cfg0\<lparr>Routing_MintConfigList := snapshot0\<rparr>"
  by (simp_all add: world_tracker_def)

theorem merge_step_witness:
  "LookupTableAccounts (mintConfig_of snapshot0 (mk_info ''Dpump'' 40 [''p7''] [''m2''] [] [])) =
     [''lut'']
   \<and> ProcessDelay (mintConfig_of snapshot0 (mk_info ''Dpump'' 40 [''p7''] [''m2''] [] [])) = 400
   \<and> PumpPoolList (mintConfig_of snapshot0 (mk_info ''Dpump'' 40 [''p7''] [''m2''] [] [])) =
       [''p7'']
   \<and> RaydiumPoolList (mintConfig_of snapshot0 (mk_info ''Dpump'' 40 [''p7''] [''m2''] [] [])) =
       [''oldr'']
   \<and> mintConfig_of snapshot0 (mk_info ''Fpump'' 30 [''p8''] [] [] [''c2'']) =
       \<lparr>Mint = ''Fpump'', PumpPoolList = [''p8''], RaydiumPoolList = [],
        RaydiumCPPoolList = [''c2''], MeteoraPoolList = [], LookupTableAccounts = [],
        ProcessDelay = 1000\<rparr>
   \<and> map Mint (Routing_MintConfigList (heap (Tracker_UpdateConfig lib0 env_ok world_tracker) 0)) =
       [''Dpump'', ''Fpump'']"
proof -
  let ?d = "mk_info ''Dpump'' 40 [''p7''] [''m2''] [] []"
  let ?f = "mk_info ''Fpump'' 30 [''p8''] [] [] [''c2'']"
  have run: "TokenPoolsInfos (tracker world_tracker) \<noteq> []
        \<and> validTokenInfos lib0 (TokenPoolsInfos (tracker world_tracker)) \<noteq> []
        \<and> marshal_ok env_ok \<and> write_ok env_ok"
    by (simp add: world_tracker_simps infos0_valid env_simps) (simp add: infos0_def)
  have d: "TokenAddress ?d = ''Dpump''" "PumpPools ?d = [''p7'']" "RaydiumPools ?d = []"
    and f: "TokenAddress ?f = ''Fpump''" "PumpPools ?f = [''p8'']" "RaydiumPools ?f = []"
      "MeteoraLists ?f = []" "RaydiumCPPools ?f = [''c2'']"
    by (simp_all add: mk_info_def)
  note D = merge_step [OF refl, where snapshot = snapshot0 and info = ?d
      and valid = "validTokenInfos lib0 infos0" and w = world_tracker and lib = lib0
      and env = env_ok]
  note F = merge_step [OF refl, where snapshot = snapshot0 and info = ?f
      and valid = "validTokenInfos lib0 infos0" and w = world_tracker and lib = lib0
      and env = env_ok]
  from D snapshot0_existing d have
    "LookupTableAccounts (mintConfig_of snapshot0 ?d) = [''lut'']"
    "ProcessDelay (mintConfig_of snapshot0 ?d) = 400"
    "PumpPoolList (mintConfig_of snapshot0 ?d) = [''p7'']"
    "RaydiumPoolList (mintConfig_of snapshot0 ?d) = [''oldr'']"
    by simp_all
  moreover from F snapshot0_existing f have
    "mintConfig_of snapshot0 ?f =
       \<lparr>Mint = ''Fpump'', PumpPoolList = [''p8''], RaydiumPoolList = [],
        RaydiumCPPoolList = [''c2''], MeteoraPoolList = [], LookupTableAccounts = [],
        ProcessDelay = 1000\<rparr>"
    by simp
  moreover have
    "map Mint (Routing_MintConfigList (heap (Tracker_UpdateConfig lib0 env_ok world_tracker) 0)) =
       [''Dpump'', ''Fpump'']"
  proof -
    from D run have "Routing_MintConfigList
        (heap (Tracker_UpdateConfig lib0 env_ok world_tracker)
           (MevConfig (tracker world_tracker))) =
        newMintConfigs
          (Routing_MintConfigList
             (json_roundtrip lib0 (heap world_tracker (MevConfig (tracker world_tracker)))))
          (validTokenInfos lib0 (TokenPoolsInfos (tracker world_tracker)))"
      by blast
    moreover from D have "map Mint (newMintConfigs snapshot0 (validTokenInfos lib0 infos0)) =
        map TokenAddress (validTokenInfos lib0 infos0)"
      by blast
    moreover have "map TokenAddress (validTokenInfos lib0 infos0) = [''Dpump'', ''Fpump'']"
      by (simp add: infos0_valid mk_info_def)
    ultimately show ?thesis
      by (simp add: world_tracker_simps lib0_simps)
  qed
  ultimately show ?thesis
    by blast
qed

end
